theory Spec2Isabelle
  imports Main "HOL-Library.Char_ord" "HOL-Library.List_Lexorder" "HOL-Library.Sublist"
    "HOL-Library.Multiset"
begin

section \<open>Strings as Python and SQLite treat them\<close>

text \<open>
  Strings are ASCII texts. \<open>str.lower\<close> of Python, \<open>str.upper\<close> and the SQL function
  \<open>LOWER\<close> agree on ASCII: the 26 letters change case, every other character stays.
  Comparison of strings (\<open>sorted\<close>, \<open>ORDER BY\<close> under the BINARY collation) is
  lexicographic on character codes, the order of \<open>List_Lexorder\<close> over \<open>Char_ord\<close>.
\<close>

definition upper_letters :: string where
  "upper_letters = ''ABCDEFGHIJKLMNOPQRSTUVWXYZ''"

definition lower_letters :: string where
  "lower_letters = ''abcdefghijklmnopqrstuvwxyz''"

definition lower_char :: "char \<Rightarrow> char" where
  "lower_char c = (case map_of (zip upper_letters lower_letters) c of None \<Rightarrow> c | Some l \<Rightarrow> l)"

definition upper_char :: "char \<Rightarrow> char" where
  "upper_char c = (case map_of (zip lower_letters upper_letters) c of None \<Rightarrow> c | Some u \<Rightarrow> u)"

definition py_lower :: "string \<Rightarrow> string" where
  "py_lower s = map lower_char s"

definition py_upper :: "string \<Rightarrow> string" where
  "py_upper s = map upper_char s"

text \<open>\<open>str(n)\<close> of a Python int, as an f-string prints it.\<close>

definition digit_char :: "nat \<Rightarrow> char" where
  "digit_char d = ''0123456789'' ! d"

function py_str_nat :: "nat \<Rightarrow> string" where
  "py_str_nat n = (if n < 10 then [digit_char n] else py_str_nat (n div 10) @ [digit_char (n mod 10)])"
  by pat_completeness auto
termination
  by (relation "measure id") auto

declare py_str_nat.simps [simp del]

definition py_str_int :: "int \<Rightarrow> string" where
  "py_str_int i = (if i < 0 then CHR ''-'' # py_str_nat (nat (- i)) else py_str_nat (nat i))"

text \<open>An f-string prints \<open>None\<close> for a missing value.\<close>

definition py_str_opt :: "string option \<Rightarrow> string" where
  "py_str_opt v = (case v of None \<Rightarrow> ''None'' | Some s \<Rightarrow> s)"

text \<open>
  The SQL operator \<open>text LIKE pattern\<close> of SQLite: \<open>%\<close> stands for any run of
  characters, \<open>_\<close> for any one character, every other character for itself up to the
  case of ASCII letters; there is no escape character. The first argument is the pattern.
\<close>

fun like :: "string \<Rightarrow> string \<Rightarrow> bool" where
  "like [] [] = True"
| "like [] (c # s) = False"
| "like (p # ps) [] = (p = CHR ''%'' \<and> like ps [])"
| "like (p # ps) (c # s) =
     (if p = CHR ''%'' then like ps (c # s) \<or> like (p # ps) s
      else (p = CHR ''_'' \<or> lower_char p = lower_char c) \<and> like ps s)"

section \<open>The schema (setup\_schema.py)\<close>

text \<open>
  Every table has an \<open>id INTEGER PRIMARY KEY AUTOINCREMENT\<close>: a table is its rows in
  rowid order, each the id with the other columns, and the largest id ever given
  (SQLite's \<open>sqlite_sequence\<close>), which a delete does not lower.
\<close>

record 'a table =
  rows :: "(int \<times> 'a) list"
  last_id :: int

record meta =
  m_code :: string
  m_name :: string

record bill_data =
  b_bill_code :: string
  b_bill_name :: string
  b_introduced_by :: string
  b_ministry_code :: "string option"
  b_legislative_body :: string
  b_state_code :: "string option"
  b_votes_favour :: int
  b_votes_against :: int
  b_current_status :: string
  b_approval_status :: "string option"
  b_approval_result :: "string option"
  b_is_money_bill :: bool
  b_pdf_path :: "string option"
  b_introduced_date :: string

record question_data =
  q_question_code :: string
  q_question_title :: string
  q_introduced_by :: string
  q_ministry_code :: "string option"
  q_legislative_body :: string
  q_state_code :: "string option"
  q_q_type :: string
  q_current_status :: string
  q_pdf_path :: "string option"
  q_introduced_date :: string

record affair_data =
  a_title :: string
  a_description :: string
  a_url :: string
  a_pdf_path :: "string option"
  a_published_date :: string

record database =
  ministries :: "meta table"
  states :: "meta table"
  bills :: "bill_data table"
  questions :: "question_data table"
  current_affairs :: "affair_data table"

text \<open>
  The database file: \<open>None\<close> while \<open>initialize_database\<close> has never run (the file
  \<open>sqlite3.connect\<close> creates has no table, so every statement raises
  \<open>OperationalError\<close>), \<open>Some d\<close> afterwards.
\<close>

type_synonym db_file = "database option"

datatype sql_error = OperationalError | IntegrityError

definition empty_table :: "'a table" where
  "empty_table = \<lparr>rows = [], last_id = 0\<rparr>"

definition empty_database :: database where
  "empty_database = \<lparr>ministries = empty_table, states = empty_table, bills = empty_table,
     questions = empty_table, current_affairs = empty_table\<rparr>"

definition initialize_database :: "db_file \<Rightarrow> db_file" where
  "initialize_database dbf = (case dbf of None \<Rightarrow> Some empty_database | Some d \<Rightarrow> Some d)"

text \<open>\<open>INSERT\<close> without an id, \<open>DELETE ... WHERE id = ?\<close>.\<close>

definition insert_row :: "'a \<Rightarrow> 'a table \<Rightarrow> 'a table" where
  "insert_row x t = \<lparr>rows = rows t @ [(last_id t + 1, x)], last_id = last_id t + 1\<rparr>"

definition delete_where_id :: "int \<Rightarrow> 'a table \<Rightarrow> 'a table" where
  "delete_where_id i t = t\<lparr>rows := filter (\<lambda>r. fst r \<noteq> i) (rows t)\<rparr>"

section \<open>Reading the store (database\_ops.py)\<close>

subsection \<open>Metadata\<close>

text \<open>
  \<open>fetch_metadata\<close> reads \<open>SELECT code, name FROM t ORDER BY name\<close> into a dict from
  name to code. A dict is the list of its assignments: a later assignment to a key wins,
  and the keys keep the order of their first assignment. Without the schema the query
  raises, and no caller catches it.
\<close>

type_synonym py_dict = "(string \<times> string) list"

definition dict_get :: "py_dict \<Rightarrow> string \<Rightarrow> string option" where
  "dict_get d k = map_of (rev d) k"

definition dict_keys :: "py_dict \<Rightarrow> string list" where
  "dict_keys d = rev (remdups (rev (map fst d)))"

definition fetch_metadata :: "meta table \<Rightarrow> py_dict" where
  "fetch_metadata t = map (\<lambda>m. (m_name m, m_code m)) (sort_key m_name (map snd (rows t)))"

subsection \<open>The join of fetch\_bills, fetch\_questions and fetch\_search\_suggestions\<close>

text \<open>
  \<open>FROM t JOIN ministries m ON t.ministry_code = m.code LEFT JOIN states s ON
  t.state_code = s.code\<close>: one row for every ministry whose code equals the record's
  (none when there is no such ministry, or the record's ministry code is NULL), with the
  name of every such state, or NULL once when there is none.
\<close>

definition state_names_for :: "database \<Rightarrow> string option \<Rightarrow> string option list" where
  "state_names_for d sc =
     (case [m_name s. s \<leftarrow> map snd (rows (states d)), Some (m_code s) = sc] of
        [] \<Rightarrow> [None]
      | ns \<Rightarrow> map Some ns)"

definition ministry_names_for :: "database \<Rightarrow> string option \<Rightarrow> string list" where
  "ministry_names_for d mc = [m_name m. m \<leftarrow> map snd (rows (ministries d)), Some (m_code m) = mc]"

record bill_view =
  bv_id :: int
  bv_bill :: bill_data
  bv_ministry_name :: string
  bv_state_name :: "string option"

record question_view =
  qv_id :: int
  qv_question :: question_data
  qv_ministry_name :: string
  qv_state_name :: "string option"

definition join_bills :: "database \<Rightarrow> bill_view list" where
  "join_bills d =
     [\<lparr>bv_id = fst r, bv_bill = snd r, bv_ministry_name = mn, bv_state_name = sn\<rparr>.
        r \<leftarrow> rows (bills d),
        mn \<leftarrow> ministry_names_for d (b_ministry_code (snd r)),
        sn \<leftarrow> state_names_for d (b_state_code (snd r))]"

definition join_questions :: "database \<Rightarrow> question_view list" where
  "join_questions d =
     [\<lparr>qv_id = fst r, qv_question = snd r, qv_ministry_name = mn, qv_state_name = sn\<rparr>.
        r \<leftarrow> rows (questions d),
        mn \<leftarrow> ministry_names_for d (q_ministry_code (snd r)),
        sn \<leftarrow> state_names_for d (q_state_code (snd r))]"

subsection \<open>fetch\_bills and fetch\_questions\<close>

text \<open>
  The search filter is added only for a non-empty \<open>search_term\<close>; its pattern is
  \<open>%\<close>, the lower-cased term, \<open>%\<close>, matched by \<open>LIKE\<close> against the lower-cased code,
  name and ministry name.
\<close>

definition search_like :: "string \<Rightarrow> string" where
  "search_like search_term = ''%'' @ py_lower search_term @ ''%''"

definition bill_matches :: "string \<Rightarrow> bill_view \<Rightarrow> bool" where
  "bill_matches search_term v =
     (search_term = [] \<or>
      like (search_like search_term) (py_lower (b_bill_code (bv_bill v))) \<or>
      like (search_like search_term) (py_lower (b_bill_name (bv_bill v))) \<or>
      like (search_like search_term) (py_lower (bv_ministry_name v)))"

definition question_matches :: "string \<Rightarrow> question_view \<Rightarrow> bool" where
  "question_matches search_term v =
     (search_term = [] \<or>
      like (search_like search_term) (py_lower (q_question_code (qv_question v))) \<or>
      like (search_like search_term) (py_lower (q_question_title (qv_question v))) \<or>
      like (search_like search_term) (py_lower (qv_ministry_name v)))"

text \<open>
  \<open>ORDER BY key DESC\<close>. SQL leaves the order of rows with equal keys open; here they
  keep the order of the join.
\<close>

definition order_by_desc :: "('a \<Rightarrow> string) \<Rightarrow> 'a list \<Rightarrow> 'a list" where
  "order_by_desc key xs = rev (sort_key key (rev xs))"

text \<open>The query itself, which raises when the schema is missing.\<close>

definition query_bills :: "db_file \<Rightarrow> string \<Rightarrow> string \<Rightarrow> sql_error + bill_view list" where
  "query_bills dbf legislative_body search_term =
     (case dbf of
        None \<Rightarrow> Inl OperationalError
      | Some d \<Rightarrow>
          Inr (order_by_desc (\<lambda>v. b_introduced_date (bv_bill v))
            (filter (\<lambda>v. b_legislative_body (bv_bill v) = legislative_body \<and> bill_matches search_term v)
               (join_bills d))))"

definition query_questions :: "db_file \<Rightarrow> string \<Rightarrow> string \<Rightarrow> sql_error + question_view list" where
  "query_questions dbf legislative_body search_term =
     (case dbf of
        None \<Rightarrow> Inl OperationalError
      | Some d \<Rightarrow>
          Inr (order_by_desc (\<lambda>v. q_introduced_date (qv_question v))
            (filter (\<lambda>v. q_legislative_body (qv_question v) = legislative_body \<and> question_matches search_term v)
               (join_questions d))))"

text \<open>
  \<open>try: return pd.read_sql_query(...)\<close>, \<open>except Exception: st.error(...); return
  pd.DataFrame()\<close>: a data frame is the list of its rows, the empty frame the empty list.
\<close>

definition fetch_bills :: "db_file \<Rightarrow> string \<Rightarrow> string \<Rightarrow> bill_view list" where
  "fetch_bills dbf legislative_body search_term =
     (case query_bills dbf legislative_body search_term of Inl e \<Rightarrow> [] | Inr df \<Rightarrow> df)"

definition fetch_questions :: "db_file \<Rightarrow> string \<Rightarrow> string \<Rightarrow> question_view list" where
  "fetch_questions dbf legislative_body search_term =
     (case query_questions dbf legislative_body search_term of Inl e \<Rightarrow> [] | Inr df \<Rightarrow> df)"

subsection \<open>fetch\_search\_suggestions\<close>

text \<open>
  The table is chosen by \<open>'Bill' in legislative_body\<close>. The query has \<open>LIMIT 10\<close> and no
  \<open>ORDER BY\<close>: the first ten matching rows of the join. Each row gives its code, its name
  and its ministry's name to a set, which is returned sorted. Nothing catches an
  exception of the query.
\<close>

definition suggestion_rows :: "database \<Rightarrow> string \<Rightarrow> (string \<times> string \<times> string) list" where
  "suggestion_rows d legislative_body =
     (if sublist ''Bill'' legislative_body
      then [(b_bill_code (snd r), b_bill_name (snd r), mn).
              r \<leftarrow> rows (bills d),
              mn \<leftarrow> ministry_names_for d (b_ministry_code (snd r)),
              b_legislative_body (snd r) = legislative_body]
      else [(q_question_code (snd r), q_question_title (snd r), mn).
              r \<leftarrow> rows (questions d),
              mn \<leftarrow> ministry_names_for d (q_ministry_code (snd r)),
              q_legislative_body (snd r) = legislative_body])"

definition suggestion_matches :: "string \<Rightarrow> string \<times> string \<times> string \<Rightarrow> bool" where
  "suggestion_matches search_term r =
     (case r of (code, name, ministry_name) \<Rightarrow>
        like (search_like search_term) (py_lower code) \<or>
        like (search_like search_term) (py_lower name) \<or>
        like (search_like search_term) (py_lower ministry_name))"

definition fetch_search_suggestions :: "db_file \<Rightarrow> string \<Rightarrow> string \<Rightarrow> sql_error + string list" where
  "fetch_search_suggestions dbf legislative_body search_term =
     (if search_term = [] \<or> length search_term < 2 then Inr []
      else case dbf of
        None \<Rightarrow> Inl OperationalError
      | Some d \<Rightarrow>
          (let df = take 10 (filter (suggestion_matches search_term) (suggestion_rows d legislative_body))
           in Inr (sort (remdups (concat (map (\<lambda>(code, name, ministry_name). [code, name, ministry_name]) df))))))"

section \<open>Writing the store (admin\_forms.py, database\_ops.py)\<close>

text \<open>
  What a handler shows: a \<open>st.success\<close> banner, a \<open>st.error\<close> banner, or an exception
  that nothing catches.
\<close>

datatype message =
    Created string
  | Added
  | Updated
  | Deleted
  | Published
  | Prerequisite
  | Required_fields
  | Title_and_description_required
  | Enter_both
  | Already_exists
  | Pdf_not_saved
  | Database_error
  | No_record_id

datatype outcome = St_success message | St_error message | Raised sql_error

text \<open>
  A \<open>st.selectbox\<close> returns one of its options: the one the user picked, the first
  (\<open>index=0\<close>) when nothing is picked.
\<close>

definition selectbox :: "string list \<Rightarrow> nat \<Rightarrow> string" where
  "selectbox options i = (if i < length options then options ! i else options ! 0)"

text \<open>An uploaded file: none, one that is written to \<open>pdfs/\<close>, or one whose write raises.\<close>

datatype upload = No_file | File_written | File_write_fails

subsection \<open>Ministries and states (render\_manage\_metadata)\<close>

text \<open>
  \<open>code\<close> and \<open>name\<close> are both \<open>UNIQUE\<close>; the insert raises \<open>IntegrityError\<close>, which the
  handler catches, when either is taken. The handler catches nothing else.
\<close>

definition insert_meta :: "string \<Rightarrow> string \<Rightarrow> meta table \<Rightarrow> sql_error + meta table" where
  "insert_meta code name t =
     (if (\<exists>m \<in> set (map snd (rows t)). m_code m = code \<or> m_name m = name) then Inl IntegrityError
      else Inr (insert_row \<lparr>m_code = code, m_name = name\<rparr> t))"

definition add_ministry :: "string \<Rightarrow> string \<Rightarrow> db_file \<Rightarrow> db_file \<times> outcome" where
  "add_ministry code name dbf =
     (if code \<noteq> [] \<and> name \<noteq> [] then
        (case dbf of
           None \<Rightarrow> (dbf, Raised OperationalError)
         | Some d \<Rightarrow>
             (case insert_meta (py_upper code) name (ministries d) of
                Inl e \<Rightarrow> (dbf, St_error Already_exists)
              | Inr t \<Rightarrow> (Some (d\<lparr>ministries := t\<rparr>), St_success Added)))
      else (dbf, St_error Enter_both))"

definition add_state :: "string \<Rightarrow> string \<Rightarrow> db_file \<Rightarrow> db_file \<times> outcome" where
  "add_state code name dbf =
     (if code \<noteq> [] \<and> name \<noteq> [] then
        (case dbf of
           None \<Rightarrow> (dbf, Raised OperationalError)
         | Some d \<Rightarrow>
             (case insert_meta (py_upper code) name (states d) of
                Inl e \<Rightarrow> (dbf, St_error Already_exists)
              | Inr t \<Rightarrow> (Some (d\<lparr>states := t\<rparr>), St_success Added)))
      else (dbf, St_error Enter_both))"

subsection \<open>save\_bill\_record\<close>

text \<open>
  \<open>bill_code\<close> is \<open>UNIQUE\<close>. The foreign keys are declared but SQLite does not enforce
  them unless \<open>PRAGMA foreign_keys\<close> is set, which no connection does. Every
  \<open>sqlite3.Error\<close> is caught and shown.
\<close>

definition insert_bill :: "bill_data \<Rightarrow> db_file \<Rightarrow> sql_error + database" where
  "insert_bill bill_data dbf =
     (case dbf of
        None \<Rightarrow> Inl OperationalError
      | Some d \<Rightarrow>
          (if b_bill_code bill_data \<in> set (map (b_bill_code \<circ> snd) (rows (bills d))) then Inl IntegrityError
           else Inr (d\<lparr>bills := insert_row bill_data (bills d)\<rparr>)))"

definition save_bill_record :: "bill_data \<Rightarrow> db_file \<Rightarrow> db_file \<times> outcome" where
  "save_bill_record bill_data dbf =
     (case insert_bill bill_data dbf of
        Inl e \<Rightarrow> (dbf, St_error Database_error)
      | Inr d \<Rightarrow> (Some d, St_success (Created (b_bill_code bill_data))))"

subsection \<open>render\_bill\_form\<close>

text \<open>
  The widgets of the form, as the user left them when the form is submitted
  (the date already as \<open>strftime('%Y-%m-%d')\<close> prints it), and the number
  \<open>random.randint(1000, 9999)\<close> returns.
\<close>

record bill_form =
  f_bill_name :: string
  f_introduced_by :: string
  f_introduced_date :: string
  f_state :: nat
  f_ministry :: nat
  f_status :: nat
  f_approval_result :: nat
  f_money :: bool
  f_votes_favour :: nat
  f_votes_against :: nat
  f_bill_pdf :: upload

definition select_state :: string where
  "select_state = ''-- Select State --''"

definition select_ministry :: string where
  "select_ministry = ''-- Select Ministry --''"

definition render_bill_form :: "string \<Rightarrow> bill_form \<Rightarrow> int \<Rightarrow> db_file \<Rightarrow> db_file \<times> outcome" where
  "render_bill_form legislative_body f random_num dbf =
     (case dbf of
        None \<Rightarrow> (dbf, Raised OperationalError)
      | Some d \<Rightarrow>
     (let is_rajya_sabha = (legislative_body = ''Rajya Sabha'');
          is_state_assembly = (legislative_body = ''State Assembly'');
          ministries_data = fetch_metadata (ministries d);
          ministry_names = dict_keys ministries_data;
          states_data = fetch_metadata (states d);
          state_names = dict_keys states_data
      in if ministry_names = [] \<or> (is_state_assembly \<and> state_names = []) then (dbf, St_error Prerequisite)
      else
     (let selected_state_name =
            (if is_state_assembly then Some (selectbox (select_state # state_names) (f_state f)) else None);
          selected_ministry_name = selectbox (select_ministry # ministry_names) (f_ministry f);
          current_status = selectbox [''Pending'', ''Passed'', ''Not Passed''] (f_status f);
          approval_status = (if is_state_assembly then ''Governor Approval'' else ''President Approval'');
          approval_result = selectbox [''Pending'', ''Yes'', ''No''] (f_approval_result f);
          is_money_bill = (if is_rajya_sabha then False else f_money f)
      in if selected_ministry_name = select_ministry \<or>
            (is_state_assembly \<and> selected_state_name = Some select_state)
         then (dbf, St_error Required_fields)
      else
     (let state_code =
            (if is_state_assembly
             then (case selected_state_name of None \<Rightarrow> None | Some n \<Rightarrow> dict_get states_data n)
             else None);
          ministry_code = dict_get ministries_data selected_ministry_name;
          bill_code =
            (if is_state_assembly
             then py_str_opt state_code @ ''-'' @ py_str_opt ministry_code @ ''-'' @ py_str_int random_num
             else ''BL-'' @ py_str_opt ministry_code @ ''-'' @ py_str_int random_num)
      in if f_bill_pdf f = File_write_fails then (dbf, St_error Pdf_not_saved)
      else
     (let pdf_path = (if f_bill_pdf f = No_file then None else Some (''pdfs/'' @ bill_code @ ''_bill.pdf''))
      in save_bill_record
           \<lparr>b_bill_code = bill_code, b_bill_name = f_bill_name f, b_introduced_by = f_introduced_by f,
            b_ministry_code = ministry_code, b_legislative_body = legislative_body,
            b_state_code = state_code, b_votes_favour = int (f_votes_favour f),
            b_votes_against = int (f_votes_against f), b_current_status = current_status,
            b_approval_status = Some approval_status, b_approval_result = Some approval_result,
            b_is_money_bill = is_money_bill, b_pdf_path = pdf_path,
            b_introduced_date = f_introduced_date f\<rparr>
           dbf)))))"

subsection \<open>render\_question\_form\<close>

record question_form =
  g_question_title :: string
  g_introduced_by :: string
  g_introduced_date :: string
  g_state :: nat
  g_ministry :: nat
  g_q_type :: nat
  g_status :: nat
  g_question_pdf :: upload

definition insert_question :: "question_data \<Rightarrow> db_file \<Rightarrow> sql_error + database" where
  "insert_question question_data dbf =
     (case dbf of
        None \<Rightarrow> Inl OperationalError
      | Some d \<Rightarrow>
          (if q_question_code question_data \<in> set (map (q_question_code \<circ> snd) (rows (questions d)))
           then Inl IntegrityError
           else Inr (d\<lparr>questions := insert_row question_data (questions d)\<rparr>)))"

definition render_question_form :: "string \<Rightarrow> question_form \<Rightarrow> int \<Rightarrow> db_file \<Rightarrow> db_file \<times> outcome" where
  "render_question_form legislative_body f random_num dbf =
     (case dbf of
        None \<Rightarrow> (dbf, Raised OperationalError)
      | Some d \<Rightarrow>
     (let ministries_data = fetch_metadata (ministries d);
          ministry_names = dict_keys ministries_data;
          states_data = fetch_metadata (states d);
          state_names = dict_keys states_data;
          is_state_assembly = (legislative_body = ''State Assembly'')
      in if ministry_names = [] \<or> (is_state_assembly \<and> state_names = []) then (dbf, St_error Prerequisite)
      else
     (let selected_state_name =
            (if is_state_assembly then Some (selectbox (select_state # state_names) (g_state f)) else None);
          selected_ministry_name = selectbox (select_ministry # ministry_names) (g_ministry f);
          q_type = selectbox [''Starred'', ''Unstarred''] (g_q_type f);
          current_status = selectbox [''Answered'', ''Not Answered''] (g_status f)
      in if selected_ministry_name = select_ministry \<or>
            (is_state_assembly \<and> selected_state_name = Some select_state)
         then (dbf, St_error Required_fields)
      else
     (let state_code =
            (if is_state_assembly
             then (case selected_state_name of None \<Rightarrow> None | Some n \<Rightarrow> dict_get states_data n)
             else None);
          ministry_code = dict_get ministries_data selected_ministry_name;
          question_code =
            (if is_state_assembly
             then py_str_opt state_code @ ''-'' @ py_str_opt ministry_code @ ''-'' @ py_str_int random_num
             else ''QN-'' @ py_str_opt ministry_code @ ''-'' @ py_str_int random_num)
      in if g_question_pdf f = File_write_fails then (dbf, St_error Pdf_not_saved)
      else
     (let pdf_path = (if g_question_pdf f = No_file then None else Some (''pdfs/'' @ question_code @ ''_qn.pdf''))
      in case insert_question
           \<lparr>q_question_code = question_code, q_question_title = g_question_title f,
            q_introduced_by = g_introduced_by f, q_ministry_code = ministry_code,
            q_legislative_body = legislative_body, q_state_code = state_code, q_q_type = q_type,
            q_current_status = current_status, q_pdf_path = pdf_path,
            q_introduced_date = g_introduced_date f\<rparr>
           dbf of
           Inl e \<Rightarrow> (dbf, St_error Database_error)
         | Inr d' \<Rightarrow> (Some d', St_success (Created question_code)))))))"

subsection \<open>Update and delete (render\_update\_delete\_ui, delete\_record)\<close>

text \<open>\<open>UPDATE t SET ... WHERE id = ?\<close>: every row with that id gets its columns set.\<close>

definition update_where_id :: "int \<Rightarrow> ('a \<Rightarrow> 'a) \<Rightarrow> 'a table \<Rightarrow> 'a table" where
  "update_where_id i f t = t\<lparr>rows := map (\<lambda>r. if fst r = i then (fst r, f (snd r)) else r) (rows t)\<rparr>"

text \<open>
  The update form of \<open>render_update_delete_ui\<close>, submitted for the selected record:
  \<open>record_id\<close> is \<open>int(record['id'])\<close>, \<open>new_status\<close> and \<open>new_approval\<close> are the values
  of the form. An \<open>UPDATE\<close> or \<open>DELETE\<close> that finds no row changes nothing and raises
  nothing; the banner that follows the commit is the same.
\<close>

definition update_record_status :: "bool \<Rightarrow> string \<Rightarrow> string option \<Rightarrow> int \<Rightarrow> db_file \<Rightarrow> db_file \<times> outcome" where
  "update_record_status is_bill new_status new_approval record_id dbf =
     (case dbf of
        None \<Rightarrow> (dbf, St_error Database_error)
      | Some d \<Rightarrow>
          (if is_bill
           then (Some (d\<lparr>bills := update_where_id record_id
                    (\<lambda>b. b\<lparr>b_current_status := new_status, b_approval_result := new_approval\<rparr>) (bills d)\<rparr>),
                 St_success Updated)
           else (Some (d\<lparr>questions := update_where_id record_id
                    (\<lambda>q. q\<lparr>q_current_status := new_status\<rparr>) (questions d)\<rparr>),
                 St_success Updated)))"

text \<open>The delete button of \<open>render_update_delete_ui\<close>, pressed for the selected record.\<close>

definition delete_selected_record :: "bool \<Rightarrow> int \<Rightarrow> db_file \<Rightarrow> db_file \<times> outcome" where
  "delete_selected_record is_bill record_id dbf =
     (case dbf of
        None \<Rightarrow> (dbf, St_error Database_error)
      | Some d \<Rightarrow>
          (if is_bill
           then (Some (d\<lparr>bills := delete_where_id record_id (bills d)\<rparr>), St_success Deleted)
           else (Some (d\<lparr>questions := delete_where_id record_id (questions d)\<rparr>), St_success Deleted)))"

text \<open>
  \<open>delete_record(table, record_id, record_code)\<close> of database\_ops.py, for \<open>table\<close> the
  name of one of the five tables of the schema.
\<close>

datatype table_name = Ministries | States | Bills | Questions | Current_affairs

fun delete_from :: "table_name \<Rightarrow> int \<Rightarrow> database \<Rightarrow> database" where
  "delete_from Ministries i d = d\<lparr>ministries := delete_where_id i (ministries d)\<rparr>"
| "delete_from States i d = d\<lparr>states := delete_where_id i (states d)\<rparr>"
| "delete_from Bills i d = d\<lparr>bills := delete_where_id i (bills d)\<rparr>"
| "delete_from Questions i d = d\<lparr>questions := delete_where_id i (questions d)\<rparr>"
| "delete_from Current_affairs i d = d\<lparr>current_affairs := delete_where_id i (current_affairs d)\<rparr>"

definition delete_record :: "table_name \<Rightarrow> int option \<Rightarrow> string \<Rightarrow> db_file \<Rightarrow> db_file \<times> outcome" where
  "delete_record table record_id record_code dbf =
     (case record_id of
        None \<Rightarrow> (dbf, St_error No_record_id)
      | Some i \<Rightarrow>
          (case dbf of
             None \<Rightarrow> (dbf, St_error Database_error)
           | Some d \<Rightarrow> (Some (delete_from table i d), St_success Deleted)))"

text \<open>The ids a table holds.\<close>

fun ids_of :: "table_name \<Rightarrow> database \<Rightarrow> int set" where
  "ids_of Ministries d = fst ` set (rows (ministries d))"
| "ids_of States d = fst ` set (rows (states d))"
| "ids_of Bills d = fst ` set (rows (bills d))"
| "ids_of Questions d = fst ` set (rows (questions d))"
| "ids_of Current_affairs d = fst ` set (rows (current_affairs d))"

subsection \<open>render\_current\_affairs\_form\<close>

record affair_form =
  h_title :: string
  h_published_date :: string
  h_url :: string
  h_description :: string
  h_pdf :: upload

definition replace_spaces :: "string \<Rightarrow> string" where
  "replace_spaces s = map (\<lambda>c. if c = CHR '' '' then CHR ''_'' else c) s"

definition render_current_affairs_form :: "affair_form \<Rightarrow> int \<Rightarrow> db_file \<Rightarrow> db_file \<times> outcome" where
  "render_current_affairs_form f random_num dbf =
     (if h_title f = [] \<or> h_description f = [] then (dbf, St_error Title_and_description_required)
      else if h_pdf f = File_write_fails then (dbf, St_error Pdf_not_saved)
      else
        (let pdf_path =
               (if h_pdf f = No_file then None
                else Some (''pdfs/CA_'' @ replace_spaces (h_title f) @ ''_'' @ py_str_int random_num @ ''.pdf''))
         in case dbf of
              None \<Rightarrow> (dbf, St_error Database_error)
            | Some d \<Rightarrow>
                (Some (d\<lparr>current_affairs := insert_row
                    \<lparr>a_title = h_title f, a_description = h_description f, a_url = h_url f,
                     a_pdf_path = pdf_path, a_published_date = h_published_date f\<rparr>
                    (current_affairs d)\<rparr>),
                 St_success Published)))"

section \<open>The viewers (viewers\_modules.py)\<close>

text \<open>
  \<open>pd.Categorical(values, categories=..., ordered=True)\<close> gives every value the position
  of its category, and NaN to a value that is no category.
\<close>

fun categorical :: "string list \<Rightarrow> string \<Rightarrow> nat option" where
  "categorical [] v = None"
| "categorical (c # cs) v = (if c = v then Some 0 else map_option Suc (categorical cs v))"

text \<open>
  \<open>df.sort_values(column, ascending=...)\<close>: the rows whose key is not NaN in ascending
  or descending order of the key, then the rows whose key is NaN (\<open>na_position='last'\<close>).
  pandas sorts descending by reversing, sorting ascending and reversing again. Its
  default \<open>kind='quicksort'\<close> leaves the order of rows with equal keys open; here they
  keep their order.
\<close>

definition sort_values :: "('a \<Rightarrow> 'k::linorder option) \<Rightarrow> bool \<Rightarrow> 'a list \<Rightarrow> 'a list" where
  "sort_values column ascending df =
     (let non_nans = List.map_filter (\<lambda>r. map_option (\<lambda>k. (k, r)) (column r)) df;
          nans = filter (\<lambda>r. column r = None) df
      in map snd (if ascending then sort_key fst non_nans else rev (sort_key fst (rev non_nans))) @ nans)"

text \<open>The block "Apply Client-Side Sorting" of each viewer.\<close>

definition sort_bills :: "string \<Rightarrow> bill_view list \<Rightarrow> bill_view list" where
  "sort_bills sort_by df_bills =
     (if sort_by = ''Status''
      then sort_values (\<lambda>v. categorical [''Passed'', ''Pending'', ''Not Passed''] (b_current_status (bv_bill v)))
             True df_bills
      else if sort_by = ''Alphabetical (Bill Name)''
      then sort_values (\<lambda>v. Some (b_bill_name (bv_bill v))) True df_bills
      else df_bills)"

definition sort_questions :: "string \<Rightarrow> question_view list \<Rightarrow> question_view list" where
  "sort_questions sort_by df_qns =
     (if sort_by = ''Status''
      then sort_values (\<lambda>v. categorical [''Answered'', ''Not Answered''] (q_current_status (qv_question v)))
             False df_qns
      else if sort_by = ''Type''
      then sort_values (\<lambda>v. Some (q_q_type (qv_question v))) True df_qns
      else df_qns)"

text \<open>
  The search box: the suggestions for the typed text, the suggestion picked among them
  (the first option is the empty one), and the query that is fetched.
\<close>

definition final_search_query :: "string list \<Rightarrow> nat \<Rightarrow> string \<Rightarrow> string" where
  "final_search_query suggestions picked raw_search_query =
     (if suggestions \<noteq> []
      then (let selected_suggestion = selectbox ([] # suggestions) picked
            in if selected_suggestion \<noteq> [] then selected_suggestion else raw_search_query)
      else raw_search_query)"

text \<open>The rows each viewer displays, in order.\<close>

definition render_bills_viewer :: "string \<Rightarrow> string \<Rightarrow> nat \<Rightarrow> string \<Rightarrow> db_file \<Rightarrow> sql_error + bill_view list" where
  "render_bills_viewer legislative_body raw_search_query picked sort_by dbf =
     (case fetch_search_suggestions dbf legislative_body raw_search_query of
        Inl e \<Rightarrow> Inl e
      | Inr suggestions \<Rightarrow>
          (let df_bills = fetch_bills dbf legislative_body (final_search_query suggestions picked raw_search_query)
           in if df_bills = [] then Inr [] else Inr (sort_bills sort_by df_bills)))"

definition render_questions_viewer :: "string \<Rightarrow> string \<Rightarrow> nat \<Rightarrow> string \<Rightarrow> db_file \<Rightarrow> sql_error + question_view list" where
  "render_questions_viewer body_type raw_search_query picked sort_by dbf =
     (case fetch_search_suggestions dbf body_type raw_search_query of
        Inl e \<Rightarrow> Inl e
      | Inr suggestions \<Rightarrow>
          (let df_qns = fetch_questions dbf body_type (final_search_query suggestions picked raw_search_query)
           in if df_qns = [] then Inr [] else Inr (sort_questions sort_by df_qns)))"

section \<open>Sequences of operations\<close>

text \<open>Everything that writes the database file, and what a sequence of writes leaves.\<close>

datatype operation =
    Initialize_database
  | Add_ministry string string
  | Add_state string string
  | Bill_form string bill_form int
  | Question_form string question_form int
  | Affair_form affair_form int
  | Update_status bool string "string option" int
  | Delete_selected bool int
  | Delete_record table_name "int option" string

fun step :: "operation \<Rightarrow> db_file \<Rightarrow> db_file" where
  "step Initialize_database dbf = initialize_database dbf"
| "step (Add_ministry code name) dbf = fst (add_ministry code name dbf)"
| "step (Add_state code name) dbf = fst (add_state code name dbf)"
| "step (Bill_form body f n) dbf = fst (render_bill_form body f n dbf)"
| "step (Question_form body f n) dbf = fst (render_question_form body f n dbf)"
| "step (Affair_form f n) dbf = fst (render_current_affairs_form f n dbf)"
| "step (Update_status is_bill new_status new_approval i) dbf =
     fst (update_record_status is_bill new_status new_approval i dbf)"
| "step (Delete_selected is_bill i) dbf = fst (delete_selected_record is_bill i dbf)"
| "step (Delete_record table i code) dbf = fst (delete_record table i code dbf)"

definition run :: "operation list \<Rightarrow> db_file \<Rightarrow> db_file" where
  "run ops dbf = fold step ops dbf"

section \<open>Predicates of the specification, and example data\<close>

text \<open>
  What the specification asks of a stored bill (no money bill of the Rajya Sabha; a state
  code exactly for the State Assembly) and of a stored question, and of the whole file.
\<close>

definition stored_bill_ok :: "bill_data \<Rightarrow> bool" where
  "stored_bill_ok b \<longleftrightarrow>
     (b_legislative_body b = ''Rajya Sabha'' \<longrightarrow> \<not> b_is_money_bill b) \<and>
     (b_state_code b \<noteq> None \<longleftrightarrow> b_legislative_body b = ''State Assembly'')"

definition stored_question_ok :: "question_data \<Rightarrow> bool" where
  "stored_question_ok q \<longleftrightarrow> (q_state_code q \<noteq> None \<longleftrightarrow> q_legislative_body q = ''State Assembly'')"

definition store_ok :: "db_file \<Rightarrow> bool" where
  "store_ok dbf =
     (case dbf of
        None \<Rightarrow> True
      | Some d \<Rightarrow> (\<forall>r \<in> set (rows (bills d)). stored_bill_ok (snd r)) \<and>
                  (\<forall>r \<in> set (rows (questions d)). stored_question_ok (snd r)))"

text \<open>A store with one ministry and one state, and filled-in forms.\<close>

definition example_setup :: "operation list" where
  "example_setup = [Initialize_database, Add_ministry ''fn'' ''Finance'', Add_state ''mh'' ''Maharashtra'']"

definition example_store :: database where
  "example_store =
     \<lparr>ministries = \<lparr>rows = [(1, \<lparr>m_code = ''FN'', m_name = ''Finance''\<rparr>)], last_id = 1\<rparr>,
      states = \<lparr>rows = [(1, \<lparr>m_code = ''MH'', m_name = ''Maharashtra''\<rparr>)], last_id = 1\<rparr>,
      bills = empty_table, questions = empty_table, current_affairs = empty_table\<rparr>"

definition example_bill_form :: bill_form where
  "example_bill_form = \<lparr>f_bill_name = ''Finance Reform Act'', f_introduced_by = ''A Member'',
     f_introduced_date = ''2025-01-15'', f_state = 1, f_ministry = 1, f_status = 0,
     f_approval_result = 0, f_money = True, f_votes_favour = 10, f_votes_against = 3,
     f_bill_pdf = No_file\<rparr>"

definition example_question_form :: question_form where
  "example_question_form = \<lparr>g_question_title = ''Rural roads'', g_introduced_by = ''A Member'',
     g_introduced_date = ''2025-02-01'', g_state = 1, g_ministry = 1, g_q_type = 0, g_status = 1,
     g_question_pdf = No_file\<rparr>"

text \<open>The store after a Lok Sabha bill named Budget has been created in it.\<close>

definition example_bill :: bill_data where
  "example_bill =
     \<lparr>b_bill_code = ''BL-FN-4321'', b_bill_name = ''Budget'', b_introduced_by = ''A Member'',
      b_ministry_code = Some ''FN'', b_legislative_body = ''Lok Sabha'', b_state_code = None,
      b_votes_favour = 10, b_votes_against = 3, b_current_status = ''Pending'',
      b_approval_status = Some ''President Approval'', b_approval_result = Some ''Pending'',
      b_is_money_bill = True, b_pdf_path = None, b_introduced_date = ''2025-01-15''\<rparr>"

definition example_bill_store :: database where
  "example_bill_store = example_store\<lparr>bills := \<lparr>rows = [(1, example_bill)], last_id = 1\<rparr>\<rparr>"

definition example_bill_view :: bill_view where
  "example_bill_view =
     \<lparr>bv_id = 1, bv_bill = example_bill, bv_ministry_name = ''Finance'', bv_state_name = None\<rparr>"

definition example_question :: question_data where
  "example_question =
     \<lparr>q_question_code = ''QN-FN-5678'', q_question_title = ''Rural roads'',
      q_introduced_by = ''A Member'', q_ministry_code = Some ''FN'',
      q_legislative_body = ''Rajya Sabha'', q_state_code = None, q_q_type = ''Starred'',
      q_current_status = ''Not Answered'', q_pdf_path = None, q_introduced_date = ''2025-02-01''\<rparr>"

definition example_question_view :: question_view where
  "example_question_view =
     \<lparr>qv_id = 1, qv_question = example_question, qv_ministry_name = ''Finance'', qv_state_name = None\<rparr>"

text \<open>A store with a Lok Sabha bill, a State Assembly bill and a Rajya Sabha question.\<close>

definition example_state_bill :: bill_data where
  "example_state_bill =
     example_bill\<lparr>b_bill_code := ''MH-FN-1234'', b_legislative_body := ''State Assembly'',
       b_state_code := Some ''MH'', b_approval_status := Some ''Governor Approval''\<rparr>"

definition example_state_bill_view :: bill_view where
  "example_state_bill_view =
     \<lparr>bv_id = 2, bv_bill = example_state_bill, bv_ministry_name = ''Finance'',
      bv_state_name = Some ''Maharashtra''\<rparr>"

definition example_mixed_store :: database where
  "example_mixed_store =
     example_store\<lparr>bills := \<lparr>rows = [(1, example_bill), (2, example_state_bill)], last_id = 2\<rparr>,
       questions := \<lparr>rows = [(1, example_question)], last_id = 1\<rparr>\<rparr>"

definition example_mixed_forms :: "operation list" where
  "example_mixed_forms =
     [Bill_form ''Lok Sabha'' (example_bill_form\<lparr>f_bill_name := ''Budget''\<rparr>) 4321,
      Bill_form ''State Assembly'' (example_bill_form\<lparr>f_bill_name := ''Budget''\<rparr>) 1234,
      Question_form ''Rajya Sabha'' example_question_form 5678]"

text \<open>
  A fetched row after its status has been set: the row with the id gets the new status
  (a bill also the new approval result), every other column and every other row stays.
\<close>

definition set_bill_status :: "int \<Rightarrow> string \<Rightarrow> string option \<Rightarrow> bill_view \<Rightarrow> bill_view" where
  "set_bill_status i s a v =
     (if bv_id v = i then v\<lparr>bv_bill := (bv_bill v)\<lparr>b_current_status := s, b_approval_result := a\<rparr>\<rparr> else v)"

definition set_question_status :: "int \<Rightarrow> string \<Rightarrow> question_view \<Rightarrow> question_view" where
  "set_question_status i s v =
     (if qv_id v = i then v\<lparr>qv_question := (qv_question v)\<lparr>q_current_status := s\<rparr>\<rparr> else v)"

text \<open>The store after five Lok Sabha questions have been created in it.\<close>

definition example_question_row :: "nat \<Rightarrow> int \<times> question_data" where
  "example_question_row n =
     (int n, example_question\<lparr>q_question_code := ''QN-FN-100'' @ [digit_char n],
        q_question_title := ''Question '' @ [digit_char n], q_legislative_body := ''Lok Sabha''\<rparr>)"

definition example_questions_store :: database where
  "example_questions_store =
     example_store\<lparr>questions := \<lparr>rows = map example_question_row [1, 2, 3, 4, 5], last_id = 5\<rparr>\<rparr>"

definition example_question_forms :: "operation list" where
  "example_question_forms =
     map (\<lambda>n. Question_form ''Lok Sabha''
            (example_question_form\<lparr>g_question_title := ''Question '' @ [digit_char n]\<rparr>) (1000 + int n))
       [1, 2, 3, 4, 5]"

text \<open>
  The place of a status in the order the status sort gives: for bills Passed, Pending,
  Not Passed, then anything else; for questions Not Answered, Answered, then anything
  else.
\<close>

definition bill_status_place :: "string \<Rightarrow> nat" where
  "bill_status_place s =
     (if s = ''Passed'' then 0 else if s = ''Pending'' then 1 else if s = ''Not Passed'' then 2 else 3)"

definition question_status_place :: "string \<Rightarrow> nat" where
  "question_status_place s = (if s = ''Not Answered'' then 0 else if s = ''Answered'' then 1 else 2)"

section \<open>Lemmas on strings, dicts and widgets\<close>




lemma selectbox_in: "selectbox (x # xs) i = x \<or> selectbox (x # xs) i \<in> set xs"
  by (cases i) (auto simp: selectbox_def)

lemma dict_get_keys: "n \<in> set (dict_keys dd) \<Longrightarrow> \<exists>c. dict_get dd n = Some c"
proof -
  assume "n \<in> set (dict_keys dd)"
  then have "n \<in> fst ` set (rev dd)" by (auto simp: dict_keys_def)
  then have "map_of (rev dd) n \<noteq> None" by (simp only: map_of_eq_None_iff not_not)
  then show ?thesis by (auto simp: dict_get_def)
qed

lemma dict_get_fetch_metadata:
  "dict_get (fetch_metadata t) n = Some c \<Longrightarrow> \<exists>m \<in> set (map snd (rows t)). m_name m = n \<and> m_code m = c"
  by (auto simp: dict_get_def fetch_metadata_def dest!: map_of_SomeD)


section \<open>What a submitted form stores\<close>

lemma render_bill_form_created:
  assumes "render_bill_form body f n dbf = (dbf', St_success msg)"
  shows "\<exists>d row mc.
     dbf = Some d \<and>
     dbf' = Some (d\<lparr>bills := insert_row row (bills d)\<rparr>) \<and>
     msg = Created (b_bill_code row) \<and>
     dict_get (fetch_metadata (ministries d))
       (selectbox (select_ministry # dict_keys (fetch_metadata (ministries d))) (f_ministry f)) = Some mc \<and>
     (body = ''State Assembly'' \<longrightarrow>
        (\<exists>sc. dict_get (fetch_metadata (states d))
           (selectbox (select_state # dict_keys (fetch_metadata (states d))) (f_state f)) = Some sc \<and>
         b_state_code row = Some sc \<and>
         b_bill_code row = sc @ ''-'' @ mc @ ''-'' @ py_str_int n)) \<and>
     (body \<noteq> ''State Assembly'' \<longrightarrow>
        b_state_code row = None \<and> b_bill_code row = ''BL-'' @ mc @ ''-'' @ py_str_int n) \<and>
     b_ministry_code row = Some mc \<and>
     b_legislative_body row = body \<and>
     b_is_money_bill row = (body \<noteq> ''Rajya Sabha'' \<and> f_money f)"
proof -
  obtain d where d: "dbf = Some d"
    using assms by (cases dbf) (auto simp: render_bill_form_def)
  let ?md = "fetch_metadata (ministries d)"
  let ?sd = "fetch_metadata (states d)"
  let ?m = "selectbox (select_ministry # dict_keys ?md) (f_ministry f)"
  let ?s = "selectbox (select_state # dict_keys ?sd) (f_state f)"
  have m_sel: "?m \<noteq> select_ministry"
    using assms d by (auto simp: render_bill_form_def Let_def split: if_splits)
  then have "?m \<in> set (dict_keys ?md)"
    using selectbox_in[of select_ministry "dict_keys ?md" "f_ministry f"] by auto
  then obtain mc where mc: "dict_get ?md ?m = Some mc"
    using dict_get_keys by blast
  show ?thesis
  proof (cases "body = ''State Assembly''")
    case True
    have "?s \<noteq> select_state"
      using assms d True by (auto simp: render_bill_form_def Let_def split: if_splits)
    then have "?s \<in> set (dict_keys ?sd)"
      using selectbox_in[of select_state "dict_keys ?sd" "f_state f"] by auto
    then obtain sc where sc: "dict_get ?sd ?s = Some sc"
      using dict_get_keys by blast
    show ?thesis
      using assms d True mc sc
      by (auto simp: render_bill_form_def Let_def save_bill_record_def insert_bill_def py_str_opt_def
          split: if_splits)
  next
    case False
    show ?thesis
      using assms d False mc
      by (auto simp: render_bill_form_def Let_def save_bill_record_def insert_bill_def py_str_opt_def
          split: if_splits)
  qed
qed

lemma render_question_form_created:
  assumes "render_question_form body f n dbf = (dbf', St_success msg)"
  shows "\<exists>d row mc.
     dbf = Some d \<and>
     dbf' = Some (d\<lparr>questions := insert_row row (questions d)\<rparr>) \<and>
     msg = Created (q_question_code row) \<and>
     dict_get (fetch_metadata (ministries d))
       (selectbox (select_ministry # dict_keys (fetch_metadata (ministries d))) (g_ministry f)) = Some mc \<and>
     (body = ''State Assembly'' \<longrightarrow>
        (\<exists>sc. dict_get (fetch_metadata (states d))
           (selectbox (select_state # dict_keys (fetch_metadata (states d))) (g_state f)) = Some sc \<and>
         q_state_code row = Some sc \<and>
         q_question_code row = sc @ ''-'' @ mc @ ''-'' @ py_str_int n)) \<and>
     (body \<noteq> ''State Assembly'' \<longrightarrow>
        q_state_code row = None \<and> q_question_code row = ''QN-'' @ mc @ ''-'' @ py_str_int n) \<and>
     q_ministry_code row = Some mc \<and>
     q_legislative_body row = body"
proof -
  obtain d where d: "dbf = Some d"
    using assms by (cases dbf) (auto simp: render_question_form_def)
  let ?md = "fetch_metadata (ministries d)"
  let ?sd = "fetch_metadata (states d)"
  let ?m = "selectbox (select_ministry # dict_keys ?md) (g_ministry f)"
  let ?s = "selectbox (select_state # dict_keys ?sd) (g_state f)"
  have m_sel: "?m \<noteq> select_ministry"
    using assms d by (auto simp: render_question_form_def Let_def split: if_splits)
  then have "?m \<in> set (dict_keys ?md)"
    using selectbox_in[of select_ministry "dict_keys ?md" "g_ministry f"] by auto
  then obtain mc where mc: "dict_get ?md ?m = Some mc"
    using dict_get_keys by blast
  show ?thesis
  proof (cases "body = ''State Assembly''")
    case True
    have "?s \<noteq> select_state"
      using assms d True by (auto simp: render_question_form_def Let_def split: if_splits)
    then have "?s \<in> set (dict_keys ?sd)"
      using selectbox_in[of select_state "dict_keys ?sd" "g_state f"] by auto
    then obtain sc where sc: "dict_get ?sd ?s = Some sc"
      using dict_get_keys by blast
    show ?thesis
      using assms d True mc sc
      by (auto simp: render_question_form_def Let_def insert_question_def py_str_opt_def
          split: if_splits)
  next
    case False
    show ?thesis
      using assms d False mc
      by (auto simp: render_question_form_def Let_def insert_question_def py_str_opt_def
          split: if_splits)
  qed
qed

lemma render_bill_form_unchanged:
  "render_bill_form body f n dbf = (dbf', out) \<Longrightarrow> \<forall>msg. out \<noteq> St_success msg \<Longrightarrow> dbf' = dbf"
  by (auto simp: render_bill_form_def Let_def save_bill_record_def split: option.splits if_splits sum.splits)

lemma render_question_form_unchanged:
  "render_question_form body f n dbf = (dbf', out) \<Longrightarrow> \<forall>msg. out \<noteq> St_success msg \<Longrightarrow> dbf' = dbf"
  by (auto simp: render_question_form_def Let_def split: option.splits if_splits sum.splits)

section \<open>Every sequence of operations keeps the store well formed\<close>

lemma store_ok_bill_form:
  assumes "store_ok dbf"
  shows "store_ok (fst (render_bill_form body f n dbf))"
proof (cases "render_bill_form body f n dbf")
  case (Pair dbf' out)
  show ?thesis
  proof (cases "\<exists>msg. out = St_success msg")
    case True
    then obtain msg where "render_bill_form body f n dbf = (dbf', St_success msg)"
      using Pair by auto
    from render_bill_form_created[OF this] assms Pair show ?thesis
      by (auto simp: store_ok_def insert_row_def stored_bill_ok_def)
  next
    case False
    with render_bill_form_unchanged[OF Pair] assms Pair show ?thesis by auto
  qed
qed

lemma store_ok_question_form:
  assumes "store_ok dbf"
  shows "store_ok (fst (render_question_form body f n dbf))"
proof (cases "render_question_form body f n dbf")
  case (Pair dbf' out)
  show ?thesis
  proof (cases "\<exists>msg. out = St_success msg")
    case True
    then obtain msg where "render_question_form body f n dbf = (dbf', St_success msg)"
      using Pair by auto
    from render_question_form_created[OF this] assms Pair show ?thesis
      by (auto simp: store_ok_def insert_row_def stored_question_ok_def)
  next
    case False
    with render_question_form_unchanged[OF Pair] assms Pair show ?thesis by auto
  qed
qed

lemma store_ok_update:
  "store_ok dbf \<Longrightarrow> store_ok (fst (update_record_status is_bill s a i dbf))"
  by (auto simp: store_ok_def update_record_status_def update_where_id_def stored_bill_ok_def
      stored_question_ok_def split: option.splits)

lemma store_ok_delete_selected:
  "store_ok dbf \<Longrightarrow> store_ok (fst (delete_selected_record is_bill i dbf))"
  by (auto simp: store_ok_def delete_selected_record_def delete_where_id_def split: option.splits)

lemma store_ok_delete_record:
  "store_ok dbf \<Longrightarrow> store_ok (fst (delete_record t i c dbf))"
  by (cases t) (auto simp: store_ok_def delete_record_def delete_where_id_def split: option.splits)

lemma store_ok_metadata:
  "store_ok dbf \<Longrightarrow> store_ok (fst (add_ministry c n dbf))"
  "store_ok dbf \<Longrightarrow> store_ok (fst (add_state c n dbf))"
  by (auto simp: store_ok_def add_ministry_def add_state_def split: option.splits sum.splits)

lemma store_ok_affair:
  "store_ok dbf \<Longrightarrow> store_ok (fst (render_current_affairs_form f n dbf))"
  by (auto simp: store_ok_def render_current_affairs_form_def Let_def split: option.splits)

lemma store_ok_initialize:
  "store_ok dbf \<Longrightarrow> store_ok (initialize_database dbf)"
  by (auto simp: store_ok_def initialize_database_def empty_database_def empty_table_def
      split: option.splits)

lemma store_ok_step: "store_ok dbf \<Longrightarrow> store_ok (step op dbf)"
  by (cases op)
    (simp_all add: store_ok_bill_form store_ok_question_form store_ok_update
      store_ok_delete_selected store_ok_delete_record store_ok_metadata store_ok_affair
      store_ok_initialize)

lemma store_ok_run: "store_ok dbf \<Longrightarrow> store_ok (run ops dbf)"
  unfolding run_def by (induction ops arbitrary: dbf) (simp_all add: store_ok_step)

lemma store_ok_fresh: "store_ok (run ops None)"
  by (rule store_ok_run) (simp add: store_ok_def)

section \<open>The example store\<close>

lemmas form_defs = render_bill_form_def render_question_form_def fetch_metadata_def
  dict_keys_def dict_get_def selectbox_def select_ministry_def select_state_def Let_def
  py_str_opt_def py_str_int_def py_str_nat.simps digit_char_def save_bill_record_def
  insert_bill_def insert_question_def empty_table_def insert_row_def

lemmas fetch_defs = fetch_bills_def query_bills_def join_bills_def fetch_questions_def
  query_questions_def join_questions_def ministry_names_for_def state_names_for_def
  bill_matches_def question_matches_def order_by_desc_def

lemma example_store_reached: "run example_setup None = Some example_store"
  by (simp add: run_def example_setup_def example_store_def initialize_database_def add_ministry_def
      add_state_def insert_meta_def insert_row_def empty_database_def empty_table_def py_upper_def
      upper_char_def lower_letters_def upper_letters_def)

section \<open>What a fetch returns\<close>

lemma run_append: "run (xs @ ys) dbf = run ys (run xs dbf)"
  by (simp add: run_def)

lemma set_order_by_desc: "set (order_by_desc key xs) = set xs"
  by (simp add: order_by_desc_def)

lemma in_join_bills_record:
  "\<lparr>bv_id = i, bv_bill = b, bv_ministry_name = mn, bv_state_name = sn\<rparr> \<in> set (join_bills d) \<longleftrightarrow>
     (i, b) \<in> set (rows (bills d)) \<and> mn \<in> set (ministry_names_for d (b_ministry_code b)) \<and>
     sn \<in> set (state_names_for d (b_state_code b))"
proof
  assume "\<lparr>bv_id = i, bv_bill = b, bv_ministry_name = mn, bv_state_name = sn\<rparr> \<in> set (join_bills d)"
  then show "(i, b) \<in> set (rows (bills d)) \<and> mn \<in> set (ministry_names_for d (b_ministry_code b)) \<and>
     sn \<in> set (state_names_for d (b_state_code b))"
    by (auto simp: join_bills_def)
next
  assume a: "(i, b) \<in> set (rows (bills d)) \<and> mn \<in> set (ministry_names_for d (b_ministry_code b)) \<and>
     sn \<in> set (state_names_for d (b_state_code b))"
  show "\<lparr>bv_id = i, bv_bill = b, bv_ministry_name = mn, bv_state_name = sn\<rparr> \<in> set (join_bills d)"
    apply (simp add: join_bills_def)
    apply (rule bexI[of _ "(i, b)"])
     apply (rule bexI[of _ mn])
    using a apply (simp_all add: image_iff)
    done
qed

lemma in_join_bills:
  "v \<in> set (join_bills d) \<longleftrightarrow>
     (bv_id v, bv_bill v) \<in> set (rows (bills d)) \<and>
     bv_ministry_name v \<in> set (ministry_names_for d (b_ministry_code (bv_bill v))) \<and>
     bv_state_name v \<in> set (state_names_for d (b_state_code (bv_bill v)))"
  by (cases v) (simp add: in_join_bills_record)

lemma in_join_questions_record:
  "\<lparr>qv_id = i, qv_question = b, qv_ministry_name = mn, qv_state_name = sn\<rparr> \<in> set (join_questions d) \<longleftrightarrow>
     (i, b) \<in> set (rows (questions d)) \<and> mn \<in> set (ministry_names_for d (q_ministry_code b)) \<and>
     sn \<in> set (state_names_for d (q_state_code b))"
proof
  assume "\<lparr>qv_id = i, qv_question = b, qv_ministry_name = mn, qv_state_name = sn\<rparr> \<in> set (join_questions d)"
  then show "(i, b) \<in> set (rows (questions d)) \<and> mn \<in> set (ministry_names_for d (q_ministry_code b)) \<and>
     sn \<in> set (state_names_for d (q_state_code b))"
    by (auto simp: join_questions_def)
next
  assume a: "(i, b) \<in> set (rows (questions d)) \<and> mn \<in> set (ministry_names_for d (q_ministry_code b)) \<and>
     sn \<in> set (state_names_for d (q_state_code b))"
  show "\<lparr>qv_id = i, qv_question = b, qv_ministry_name = mn, qv_state_name = sn\<rparr> \<in> set (join_questions d)"
    apply (simp add: join_questions_def)
    apply (rule bexI[of _ "(i, b)"])
     apply (rule bexI[of _ mn])
    using a apply (simp_all add: image_iff)
    done
qed

lemma in_join_questions:
  "v \<in> set (join_questions d) \<longleftrightarrow>
     (qv_id v, qv_question v) \<in> set (rows (questions d)) \<and>
     qv_ministry_name v \<in> set (ministry_names_for d (q_ministry_code (qv_question v))) \<and>
     qv_state_name v \<in> set (state_names_for d (q_state_code (qv_question v)))"
  by (cases v) (simp add: in_join_questions_record)

lemma set_fetch_bills:
  "set (fetch_bills (Some d) body q) =
     {v \<in> set (join_bills d). b_legislative_body (bv_bill v) = body \<and> bill_matches q v}"
  by (simp add: fetch_bills_def query_bills_def set_order_by_desc)

lemma set_fetch_questions:
  "set (fetch_questions (Some d) body q) =
     {v \<in> set (join_questions d). q_legislative_body (qv_question v) = body \<and> question_matches q v}"
  by (simp add: fetch_questions_def query_questions_def set_order_by_desc)

lemma fetch_bills_None: "fetch_bills None body q = []"
  by (simp add: fetch_bills_def query_bills_def)

lemma fetch_questions_None: "fetch_questions None body q = []"
  by (simp add: fetch_questions_def query_questions_def)

lemma fetched_bill_stored:
  assumes "v \<in> set (fetch_bills dbf body q)"
  shows "\<exists>d. dbf = Some d \<and> (bv_id v, bv_bill v) \<in> set (rows (bills d)) \<and>
    b_legislative_body (bv_bill v) = body"
proof (cases dbf)
  case None
  with assms show ?thesis by (simp add: fetch_bills_None)
next
  case (Some d)
  with assms show ?thesis by (simp add: set_fetch_bills in_join_bills)
qed

lemma fetched_question_stored:
  assumes "v \<in> set (fetch_questions dbf body q)"
  shows "\<exists>d. dbf = Some d \<and> (qv_id v, qv_question v) \<in> set (rows (questions d)) \<and>
    q_legislative_body (qv_question v) = body"
proof (cases dbf)
  case None
  with assms show ?thesis by (simp add: fetch_questions_None)
next
  case (Some d)
  with assms show ?thesis by (simp add: set_fetch_questions in_join_questions)
qed

section \<open>LIKE between two wildcards is a substring test\<close>














section \<open>Deletes and updates that find no row\<close>

lemma delete_where_id_absent: "i \<notin> fst ` set (rows t) \<Longrightarrow> delete_where_id i t = t"
proof -
  assume "i \<notin> fst ` set (rows t)"
  then have "filter (\<lambda>r. fst r \<noteq> i) (rows t) = rows t"
    by (induction "rows t") (auto simp: filter_id_conv)
  then show ?thesis by (simp add: delete_where_id_def)
qed

lemma update_where_id_absent: "i \<notin> fst ` set (rows t) \<Longrightarrow> update_where_id i f t = t"
proof -
  assume "i \<notin> fst ` set (rows t)"
  then have "map (\<lambda>r. if fst r = i then (fst r, f (snd r)) else r) (rows t) = rows t"
    by (intro map_idI) auto
  then show ?thesis by (simp add: update_where_id_def)
qed

lemma delete_from_absent: "i \<notin> ids_of table d \<Longrightarrow> delete_from table i d = d"
  by (cases table) (simp_all add: delete_where_id_absent)

lemma ids_of_delete_from: "i \<notin> ids_of table (delete_from table i d)"
  by (cases table) (auto simp: delete_where_id_def)


section \<open>The names a join finds\<close>

lemma names_comprehension:
  "[m_name s. s \<leftarrow> xs, Some (m_code s) = c] = map m_name (filter (\<lambda>s. Some (m_code s) = c) xs)"
  by (induction xs) auto

lemma set_ministry_names_for:
  "set (ministry_names_for d mc) = {m_name m | m. m \<in> snd ` set (rows (ministries d)) \<and> Some (m_code m) = mc}"
  unfolding ministry_names_for_def names_comprehension by auto

lemma ministry_names_for_none:
  "\<forall>m \<in> snd ` set (rows (ministries d)). Some (m_code m) \<noteq> mc \<Longrightarrow> ministry_names_for d mc = []"
  unfolding ministry_names_for_def names_comprehension by (auto simp: filter_empty_conv)

lemma state_names_for_none:
  "\<forall>s \<in> snd ` set (rows (states d)). Some (m_code s) \<noteq> sc \<Longrightarrow> state_names_for d sc = [None]"
proof -
  assume "\<forall>s \<in> snd ` set (rows (states d)). Some (m_code s) \<noteq> sc"
  then have "filter (\<lambda>s. Some (m_code s) = sc) (map snd (rows (states d))) = []"
    by (auto simp: filter_empty_conv)
  then show ?thesis unfolding state_names_for_def names_comprehension by simp
qed

lemma state_names_for_some:
  assumes "s \<in> snd ` set (rows (states d))" "Some (m_code s) = sc"
  shows "Some (m_name s) \<in> set (state_names_for d sc)"
proof -
  let ?ns = "map m_name (filter (\<lambda>s. Some (m_code s) = sc) (map snd (rows (states d))))"
  from assms have "m_name s \<in> set ?ns" by auto
  then have "Some (m_name s) \<in> set (case ?ns of [] \<Rightarrow> [None] | ns \<Rightarrow> map Some ns)"
    by (cases ?ns) auto
  then show ?thesis unfolding state_names_for_def names_comprehension .
qed


section \<open>The example store with a bill\<close>

lemmas like_defs = search_like_def py_lower_def lower_char_def upper_letters_def lower_letters_def

lemma example_bill_store_reached:
  "run (example_setup @ [Bill_form ''Lok Sabha'' (example_bill_form\<lparr>f_bill_name := ''Budget''\<rparr>) 4321]) None
     = Some example_bill_store"
  by (simp add: run_append example_store_reached)
     (simp add: run_def form_defs example_bill_form_def example_store_def example_bill_store_def
       example_bill_def)







lemma example_mixed_store_reached:
  "run (example_setup @ example_mixed_forms) None = Some example_mixed_store"
  by (simp add: run_append example_store_reached)
     (simp add: run_def example_mixed_forms_def form_defs example_bill_form_def
       example_question_form_def example_store_def example_mixed_store_def example_bill_def
       example_state_bill_def example_question_def)

lemma example_mixed_fetch:
  "fetch_bills (Some example_mixed_store) ''Lok Sabha'' [] = [example_bill_view]"
  "fetch_bills (Some example_mixed_store) ''State Assembly'' [] = [example_state_bill_view]"
  "fetch_questions (Some example_mixed_store) ''Rajya Sabha'' [] = [example_question_view]"
  by (simp_all add: fetch_defs example_mixed_store_def example_store_def example_bill_def
      example_state_bill_def example_question_def example_bill_view_def example_state_bill_view_def
      example_question_view_def)

section \<open>A fetch after a status update\<close>

lemma insort_key_map:
  "(\<And>y. f (g y) = f y) \<Longrightarrow> insort_key f (g x) (map g xs) = map g (insort_key f x xs)"
  by (induction xs) auto

lemma sort_key_map: "(\<And>y. f (g y) = f y) \<Longrightarrow> sort_key f (map g xs) = map g (sort_key f xs)"
  by (induction xs) (simp_all add: insort_key_map)

lemma order_by_desc_map:
  "(\<And>y. key (g y) = key y) \<Longrightarrow> order_by_desc key (map g xs) = map g (order_by_desc key xs)"
  by (simp add: order_by_desc_def rev_map sort_key_map)

lemma join_bills_update:
  "join_bills (d\<lparr>bills := update_where_id i
       (\<lambda>b. b\<lparr>b_current_status := s, b_approval_result := a\<rparr>) (bills d)\<rparr>)
     = map (set_bill_status i s a) (join_bills d)"
proof -
  have "concat (map (\<lambda>r. concat (map (\<lambda>mn. map (\<lambda>sn. \<lparr>bv_id = fst r, bv_bill = snd r,
              bv_ministry_name = mn, bv_state_name = sn\<rparr>)
            (state_names_for d' (b_state_code (snd r)))) (ministry_names_for d' (b_ministry_code (snd r)))))
          (map (\<lambda>r. if fst r = i then (fst r, (snd r)\<lparr>b_current_status := s, b_approval_result := a\<rparr>) else r) xs))
      = map (set_bill_status i s a)
         (concat (map (\<lambda>r. concat (map (\<lambda>mn. map (\<lambda>sn. \<lparr>bv_id = fst r, bv_bill = snd r,
              bv_ministry_name = mn, bv_state_name = sn\<rparr>)
            (state_names_for d' (b_state_code (snd r)))) (ministry_names_for d' (b_ministry_code (snd r))))) xs))"
    for xs d'
    by (induction xs) (auto simp: set_bill_status_def map_concat o_def)
  from this[of "d" "rows (bills d)"] show ?thesis
    by (simp add: join_bills_def update_where_id_def ministry_names_for_def state_names_for_def)
qed


lemma join_questions_update:
  "join_questions (d\<lparr>questions := update_where_id i (\<lambda>q. q\<lparr>q_current_status := s\<rparr>) (questions d)\<rparr>)
     = map (set_question_status i s) (join_questions d)"
proof -
  have "concat (map (\<lambda>r. concat (map (\<lambda>mn. map (\<lambda>sn. \<lparr>qv_id = fst r, qv_question = snd r,
              qv_ministry_name = mn, qv_state_name = sn\<rparr>)
            (state_names_for d' (q_state_code (snd r)))) (ministry_names_for d' (q_ministry_code (snd r)))))
          (map (\<lambda>r. if fst r = i then (fst r, (snd r)\<lparr>q_current_status := s\<rparr>) else r) xs))
      = map (set_question_status i s)
         (concat (map (\<lambda>r. concat (map (\<lambda>mn. map (\<lambda>sn. \<lparr>qv_id = fst r, qv_question = snd r,
              qv_ministry_name = mn, qv_state_name = sn\<rparr>)
            (state_names_for d' (q_state_code (snd r)))) (ministry_names_for d' (q_ministry_code (snd r))))) xs))"
    for xs d'
    by (induction xs) (auto simp: set_question_status_def map_concat o_def)
  from this[of "d" "rows (questions d)"] show ?thesis
    by (simp add: join_questions_def update_where_id_def ministry_names_for_def state_names_for_def)
qed

lemma fetch_bills_Some:
  "fetch_bills (Some d) body q =
     order_by_desc (\<lambda>v. b_introduced_date (bv_bill v))
       (filter (\<lambda>v. b_legislative_body (bv_bill v) = body \<and> bill_matches q v) (join_bills d))"
  by (simp add: fetch_bills_def query_bills_def)

lemma fetch_questions_Some:
  "fetch_questions (Some d) body q =
     order_by_desc (\<lambda>v. q_introduced_date (qv_question v))
       (filter (\<lambda>v. q_legislative_body (qv_question v) = body \<and> question_matches q v)
          (join_questions d))"
  by (simp add: fetch_questions_def query_questions_def)

lemma fetch_bills_update:
  "fetch_bills (Some (d\<lparr>bills := update_where_id i
       (\<lambda>b. b\<lparr>b_current_status := s, b_approval_result := a\<rparr>) (bills d)\<rparr>)) body q
     = map (set_bill_status i s a) (fetch_bills (Some d) body q)"
proof -
  have k: "b_introduced_date (bv_bill (set_bill_status i s a v)) = b_introduced_date (bv_bill v)" for v
    by (simp add: set_bill_status_def)
  have p: "(b_legislative_body (bv_bill (set_bill_status i s a v)) = body \<and>
            bill_matches q (set_bill_status i s a v))
         = (b_legislative_body (bv_bill v) = body \<and> bill_matches q v)" for v
    by (simp add: set_bill_status_def bill_matches_def)
  show ?thesis
    unfolding fetch_bills_Some join_bills_update
    by (simp add: filter_map o_def p order_by_desc_map[where g = "set_bill_status i s a" and key = "\<lambda>v. b_introduced_date (bv_bill v)", OF k])
qed

lemma fetch_questions_update:
  "fetch_questions (Some (d\<lparr>questions := update_where_id i
       (\<lambda>q. q\<lparr>q_current_status := s\<rparr>) (questions d)\<rparr>)) body q
     = map (set_question_status i s) (fetch_questions (Some d) body q)"
proof -
  have k: "q_introduced_date (qv_question (set_question_status i s v)) = q_introduced_date (qv_question v)" for v
    by (simp add: set_question_status_def)
  have p: "(q_legislative_body (qv_question (set_question_status i s v)) = body \<and>
            question_matches q (set_question_status i s v))
         = (q_legislative_body (qv_question v) = body \<and> question_matches q v)" for v
    by (simp add: set_question_status_def question_matches_def)
  show ?thesis
    unfolding fetch_questions_Some join_questions_update
    by (simp add: filter_map o_def p order_by_desc_map[where g = "set_question_status i s" and key = "\<lambda>v. q_introduced_date (qv_question v)", OF k])
qed

lemma join_other_table:
  "join_questions (d\<lparr>bills := t\<rparr>) = join_questions d"
  "join_bills (d\<lparr>questions := u\<rparr>) = join_bills d"
  by (simp_all add: join_questions_def join_bills_def ministry_names_for_def state_names_for_def)

lemma fetch_other_table:
  "fetch_questions (Some (d\<lparr>bills := t\<rparr>)) body q = fetch_questions (Some d) body q"
  "fetch_bills (Some (d\<lparr>questions := u\<rparr>)) body q = fetch_bills (Some d) body q"
  by (simp_all add: fetch_bills_Some fetch_questions_Some join_other_table)

section \<open>The example store with five questions\<close>

lemma example_questions_store_reached:
  "run (example_setup @ example_question_forms) None = Some example_questions_store"
  by (simp add: run_append example_store_reached)
     (simp add: run_def example_question_forms_def form_defs example_question_form_def
       example_store_def example_questions_store_def example_question_row_def example_question_def)

lemma example_suggestion_rows:
  "take 10 (filter (suggestion_matches ''qn'') (suggestion_rows example_questions_store ''Lok Sabha''))
     = [(''QN-FN-1001'', ''Question 1'', ''Finance''), (''QN-FN-1002'', ''Question 2'', ''Finance''),
        (''QN-FN-1003'', ''Question 3'', ''Finance''), (''QN-FN-1004'', ''Question 4'', ''Finance''),
        (''QN-FN-1005'', ''Question 5'', ''Finance'')]"
  by (simp add: suggestion_rows_def suggestion_matches_def like_defs sublist_code
      ministry_names_for_def example_questions_store_def example_store_def
      example_question_row_def example_question_def digit_char_def)

lemma example_suggestions_sorted:
  "sort (remdups [''QN-FN-1001'', ''Question 1'', ''Finance'', ''QN-FN-1002'', ''Question 2'', ''Finance'',
        ''QN-FN-1003'', ''Question 3'', ''Finance'', ''QN-FN-1004'', ''Question 4'', ''Finance'',
        ''QN-FN-1005'', ''Question 5'', ''Finance''])
   = [''Finance'', ''QN-FN-1001'', ''QN-FN-1002'', ''QN-FN-1003'', ''QN-FN-1004'', ''QN-FN-1005'',
      ''Question 1'', ''Question 2'', ''Question 3'', ''Question 4'', ''Question 5'']"
  by code_simp

lemma example_suggestions:
  "fetch_search_suggestions (Some example_questions_store) ''Lok Sabha'' ''qn''
   = Inr [''Finance'', ''QN-FN-1001'', ''QN-FN-1002'', ''QN-FN-1003'', ''QN-FN-1004'', ''QN-FN-1005'',
      ''Question 1'', ''Question 2'', ''Question 3'', ''Question 4'', ''Question 5'']"
proof -
  have "fetch_search_suggestions (Some example_questions_store) ''Lok Sabha'' ''qn''
    = Inr (sort (remdups (concat (map (\<lambda>(code, name, ministry_name). [code, name, ministry_name])
        (take 10 (filter (suggestion_matches ''qn'')
           (suggestion_rows example_questions_store ''Lok Sabha'')))))))"
    by (simp add: fetch_search_suggestions_def)
  also have "\<dots> = Inr (sort (remdups [''QN-FN-1001'', ''Question 1'', ''Finance'', ''QN-FN-1002'',
        ''Question 2'', ''Finance'', ''QN-FN-1003'', ''Question 3'', ''Finance'', ''QN-FN-1004'',
        ''Question 4'', ''Finance'', ''QN-FN-1005'', ''Question 5'', ''Finance'']))"
    unfolding example_suggestion_rows by simp
  finally show ?thesis
    unfolding example_suggestions_sorted .
qed

lemma length_concat_triples:
  "length (concat (map (\<lambda>(code, name, ministry_name). [code, name, ministry_name]) df)) = 3 * length df"
  by (induction df) auto

lemma set_concat_triples:
  "s \<in> set (concat (map (\<lambda>(code, name, ministry_name). [code, name, ministry_name]) df)) \<Longrightarrow>
   \<exists>r \<in> set df. s = fst r \<or> s = fst (snd r) \<or> s = snd (snd r)"
  by (induction df) auto


section \<open>What sort\_values does\<close>

lemma map_filter_pairs:
  "List.map_filter (\<lambda>r. map_option (\<lambda>k. (k, r)) (column r)) df
     = map (\<lambda>r. (the (column r), r)) (filter (\<lambda>r. column r \<noteq> None) df)"
  by (induction df) (auto simp: List.map_filter_simps split: option.splits)

lemma mset_sort_values: "mset (sort_values column ascending df) = mset df"
proof -
  let ?pairs = "List.map_filter (\<lambda>r. map_option (\<lambda>k. (k, r)) (column r)) df"
  have "mset (map snd (if ascending then sort_key fst ?pairs else rev (sort_key fst (rev ?pairs))))
      = mset (map snd ?pairs)"
    by simp
  also have "\<dots> = mset (filter (\<lambda>r. column r \<noteq> None) df)"
    by (simp add: map_filter_pairs o_def)
  finally have "mset (sort_values column ascending df)
      = mset (filter (\<lambda>r. column r \<noteq> None) df) + mset (filter (\<lambda>r. column r = None) df)"
    by (simp add: sort_values_def Let_def)
  also have "\<dots> = mset df"
    using multiset_partition[of "mset df" "\<lambda>r. column r \<noteq> None"] by simp
  finally show ?thesis .
qed

lemma sorted_constant_bound:
  "(\<And>x. x \<in> set xs \<Longrightarrow> f x = c) \<Longrightarrow> sorted (map f xs)"
  by (induction xs) auto

lemma sorted_map_mono:
  "sorted xs \<Longrightarrow> (\<And>j k. j \<le> k \<Longrightarrow> f j \<le> f k) \<Longrightarrow> sorted (map f xs)"
  by (induction xs) auto

lemma sorted_map_anti_rev:
  "sorted xs \<Longrightarrow> (\<And>j k. j \<le> k \<Longrightarrow> f k \<le> f j) \<Longrightarrow> sorted (map f (rev xs))"
  by (induction xs) (auto simp: sorted_append)

lemma sorted_places_ascending:
  assumes some: "\<And>r k. column r = Some k \<Longrightarrow> place r = f k"
    and mono: "\<And>j k. j \<le> k \<Longrightarrow> f j \<le> f k"
    and none: "\<And>r. column r = None \<Longrightarrow> place r = last_place"
    and last: "\<And>r. place r \<le> last_place"
  shows "sorted (map place (sort_values column True df))"
proof -
  let ?pairs = "List.map_filter (\<lambda>r. map_option (\<lambda>k. (k, r)) (column r)) df"
  let ?sorted = "sort_key fst ?pairs"
  let ?nans = "filter (\<lambda>r. column r = None) df"
  have fst: "place (snd p) = f (fst p)" if "p \<in> set ?pairs" for p
    using that some by (auto simp: map_filter_pairs)
  have eq: "map (place \<circ> snd) ?sorted = map f (map fst ?sorted)"
    unfolding map_map
  proof (rule map_cong[OF refl])
    fix p assume "p \<in> set ?sorted"
    then have "p \<in> set ?pairs" by simp
    from fst[OF this] show "(place \<circ> snd) p = (f \<circ> fst) p" by simp
  qed
  have "sorted (map fst ?sorted)" by (rule sorted_sort_key)
  then have "sorted (map f (map fst ?sorted))"
    by (rule sorted_map_mono) (rule mono)
  then have s: "sorted (map place (map snd ?sorted))"
    unfolding map_map eq[unfolded map_map] .
  have n: "sorted (map place ?nans)"
    by (rule sorted_constant_bound[of _ _ last_place]) (simp add: none)
  have b: "place x \<le> place y" if "y \<in> set ?nans" for x y
    using that none[of y] last[of x] by simp
  show ?thesis
    using s n b by (auto simp: sort_values_def Let_def sorted_append)
qed

lemma sorted_places_descending:
  assumes some: "\<And>r k. column r = Some k \<Longrightarrow> place r = f k"
    and anti: "\<And>j k. j \<le> k \<Longrightarrow> f k \<le> f j"
    and none: "\<And>r. column r = None \<Longrightarrow> place r = last_place"
    and last: "\<And>r. place r \<le> last_place"
  shows "sorted (map place (sort_values column False df))"
proof -
  let ?pairs = "List.map_filter (\<lambda>r. map_option (\<lambda>k. (k, r)) (column r)) df"
  let ?sorted = "sort_key fst (rev ?pairs)"
  let ?nans = "filter (\<lambda>r. column r = None) df"
  have fst: "place (snd p) = f (fst p)" if "p \<in> set ?pairs" for p
    using that some by (auto simp: map_filter_pairs)
  have eq: "map (place \<circ> snd) (rev ?sorted) = map f (map fst (rev ?sorted))"
    unfolding map_map
  proof (rule map_cong[OF refl])
    fix p assume "p \<in> set (rev ?sorted)"
    then have "p \<in> set ?pairs" by simp
    from fst[OF this] show "(place \<circ> snd) p = (f \<circ> fst) p" by simp
  qed
  have "sorted (map fst ?sorted)" by (rule sorted_sort_key)
  then have "sorted (map f (rev (map fst ?sorted)))"
    by (rule sorted_map_anti_rev) (rule anti)
  then have "sorted (map f (map fst (rev ?sorted)))"
    by (simp only: rev_map)
  then have s: "sorted (map place (map snd (rev ?sorted)))"
    unfolding map_map eq[unfolded map_map] .
  have n: "sorted (map place ?nans)"
    by (rule sorted_constant_bound[of _ _ last_place]) (simp add: none)
  have b: "place x \<le> place y" if "y \<in> set ?nans" for x y
    using that none[of y] last[of x] by simp
  show ?thesis
    using s n b by (auto simp: sort_values_def Let_def sorted_append)
qed

lemma bill_status_places:
  "categorical [''Passed'', ''Pending'', ''Not Passed''] s = Some k \<Longrightarrow> bill_status_place s = k"
  "categorical [''Passed'', ''Pending'', ''Not Passed''] s = None \<Longrightarrow> bill_status_place s = 3"
  "bill_status_place s \<le> 3"
  by (auto simp: bill_status_place_def split: if_splits)

lemma question_status_places:
  "categorical [''Answered'', ''Not Answered''] s = Some k \<Longrightarrow> question_status_place s = 1 - k"
  "categorical [''Answered'', ''Not Answered''] s = None \<Longrightarrow> question_status_place s = 2"
  "question_status_place s \<le> 2"
  by (auto simp: question_status_place_def split: if_splits)

lemma sorted_sort_bills_status:
  "sorted (map (\<lambda>v. bill_status_place (b_current_status (bv_bill v))) (sort_bills ''Status'' df))"
  unfolding sort_bills_def
  by (simp, rule sorted_places_ascending[where f = "\<lambda>k. k" and last_place = 3])
     (simp_all add: bill_status_places)

lemma sorted_sort_questions_status:
  "sorted (map (\<lambda>v. question_status_place (q_current_status (qv_question v))) (sort_questions ''Status'' df))"
  unfolding sort_questions_def
  by (simp, rule sorted_places_descending[where f = "\<lambda>k. 1 - k" and last_place = 2])
     (simp_all add: question_status_places)

lemma mset_sort_bills: "mset (sort_bills sort_by df) = mset df"
  by (simp add: sort_bills_def mset_sort_values)

lemma mset_sort_questions: "mset (sort_questions sort_by df) = mset df"
  by (simp add: sort_questions_def mset_sort_values)

section \<open>The claims\<close>

subsection \<open>C1: the shape of a generated code\<close>



subsection \<open>C2: an id that the table does not hold\<close>

text \<open>
  C2 as stated fails: on an id that the table does not hold, \<open>delete_record\<close>, the delete
  button and the status update all leave the store as it is and show the success banner;
  no operation reports that the id was not found.
\<close>

theorem absent_id_not_found_counterexample:
  "7 \<notin> ids_of Bills example_store \<and>
   delete_record Bills (Some 7) ''BL-FN-7777'' (Some example_store)
     = (Some example_store, St_success Deleted) \<and>
   delete_selected_record True 7 (Some example_store) = (Some example_store, St_success Deleted) \<and>
   update_record_status True ''Passed'' (Some ''Yes'') 7 (Some example_store)
     = (Some example_store, St_success Updated)"
  by (simp add: example_store_def empty_table_def delete_record_def delete_selected_record_def
      update_record_status_def delete_where_id_def update_where_id_def)

text \<open>
  C2, amended. For every table and every id that the table does not hold, the delete by
  id leaves the store unchanged and shows the success banner of a delete; the status
  update on that id leaves the store unchanged and shows the success banner of an
  update; and a delete repeated on the same id shows the success banner again.
\<close>

theorem absent_id_reports_success:
  "(i \<notin> ids_of table d \<longrightarrow>
      delete_record table (Some i) code (Some d) = (Some d, St_success Deleted)) \<and>
   (i \<notin> ids_of (if is_bill then Bills else Questions) d \<longrightarrow>
      delete_selected_record is_bill i (Some d) = (Some d, St_success Deleted) \<and>
      update_record_status is_bill new_status new_approval i (Some d) = (Some d, St_success Updated)) \<and>
   (delete_record table (Some i) code (Some d) = (dbf', out) \<longrightarrow>
      i \<notin> ids_of table (delete_from table i d) \<and>
      dbf' = Some (delete_from table i d) \<and> out = St_success Deleted \<and>
      delete_record table (Some i) code dbf' = (dbf', St_success Deleted))"
proof (intro conjI impI)
  assume "i \<notin> ids_of table d"
  then show "delete_record table (Some i) code (Some d) = (Some d, St_success Deleted)"
    by (simp add: delete_record_def delete_from_absent)
next
  assume a: "i \<notin> ids_of (if is_bill then Bills else Questions) d"
  then show "delete_selected_record is_bill i (Some d) = (Some d, St_success Deleted)"
    by (cases is_bill) (simp_all add: delete_selected_record_def delete_where_id_absent)
  from a show "update_record_status is_bill new_status new_approval i (Some d) = (Some d, St_success Updated)"
    by (cases is_bill) (simp_all add: update_record_status_def update_where_id_absent)
next
  assume a: "delete_record table (Some i) code (Some d) = (dbf', out)"
  show "i \<notin> ids_of table (delete_from table i d)" by (rule ids_of_delete_from)
  from a show b: "dbf' = Some (delete_from table i d)" by (auto simp: delete_record_def)
  from a show "out = St_success Deleted" by (auto simp: delete_record_def)
  show "delete_record table (Some i) code dbf' = (dbf', St_success Deleted)"
    unfolding b by (simp add: delete_record_def delete_from_absent[OF ids_of_delete_from])
qed

theorem absent_id_reports_success_witness:
  "7 \<notin> ids_of Bills example_store \<and>
   delete_record Bills (Some 7) ''BL-FN-7777'' (Some example_store)
     = (Some example_store, St_success Deleted) \<and>
   update_record_status True ''Passed'' (Some ''Yes'') 7 (Some example_store)
     = (Some example_store, St_success Updated) \<and>
   1 \<in> ids_of Ministries example_store \<and>
   delete_record Ministries (Some 1) ''FN''
     (fst (delete_record Ministries (Some 1) ''FN'' (Some example_store)))
     = (Some (example_store\<lparr>ministries := \<lparr>rows = [], last_id = 1\<rparr>\<rparr>), St_success Deleted)"
proof -
  let ?after = "Some (example_store\<lparr>ministries := \<lparr>rows = [], last_id = 1\<rparr>\<rparr>)"
  have h: "7 \<notin> ids_of Bills example_store"
    by (simp add: example_store_def empty_table_def)
  have h1: "7 \<notin> ids_of (if True then Bills else Questions) example_store"
    using h by simp
  have m: "1 \<in> ids_of Ministries example_store"
    by (simp add: example_store_def)
  have first: "delete_record Ministries (Some 1) ''FN'' (Some example_store) = (?after, St_success Deleted)"
    by (simp add: delete_record_def delete_where_id_def example_store_def)
  note t = absent_id_reports_success[of 7 Bills example_store "''BL-FN-7777''" True "''Passed''"
      "Some ''Yes''" None "St_success Deleted"]
  note s = absent_id_reports_success[of 1 Ministries example_store "''FN''" True "''Passed''"
      "Some ''Yes''" ?after "St_success Deleted"]
  from t h have d: "delete_record Bills (Some 7) ''BL-FN-7777'' (Some example_store)
      = (Some example_store, St_success Deleted)"
    by blast
  from t h1 have u: "update_record_status True ''Passed'' (Some ''Yes'') 7 (Some example_store)
      = (Some example_store, St_success Updated)"
    by blast
  from s first have again: "delete_record Ministries (Some 1) ''FN'' ?after = (?after, St_success Deleted)"
    by blast
  from first have "fst (delete_record Ministries (Some 1) ''FN'' (Some example_store)) = ?after"
    by simp
  with again have "delete_record Ministries (Some 1) ''FN''
     (fst (delete_record Ministries (Some 1) ''FN'' (Some example_store))) = (?after, St_success Deleted)"
    by simp
  with h d u m show ?thesis by blast
qed

subsection \<open>C3: the suggestions\<close>

text \<open>
  C3 as stated fails: the limit of ten is on the rows of the query, and every row gives
  up to three suggestions. With five Lok Sabha questions of one ministry the query
  \<open>qn\<close> returns eleven suggestions.
\<close>

theorem suggestions_at_most_ten_counterexample:
  "fetch_search_suggestions (Some example_questions_store) ''Lok Sabha'' ''qn''
     = Inr [''Finance'', ''QN-FN-1001'', ''QN-FN-1002'', ''QN-FN-1003'', ''QN-FN-1004'', ''QN-FN-1005'',
        ''Question 1'', ''Question 2'', ''Question 3'', ''Question 4'', ''Question 5''] \<and>
   length [''Finance'', ''QN-FN-1001'', ''QN-FN-1002'', ''QN-FN-1003'', ''QN-FN-1004'', ''QN-FN-1005'',
        ''Question 1'', ''Question 2'', ''Question 3'', ''Question 4'', ''Question 5''] = 11"
  using example_suggestions by simp

text \<open>
  C3, amended. For every legislative body and every query, the suggestion lookup returns
  at most 30 suggestions, each the code, the name or title, or the ministry name of one
  of at most ten rows that match the search predicate, without duplicates and in
  lexicographic order; and for every query shorter than two characters, the empty one
  included, it returns the empty list.
\<close>

theorem suggestions_bounded_sorted:
  "(fetch_search_suggestions dbf legislative_body search_term = Inr suggestions \<longrightarrow>
      length suggestions \<le> 30 \<and> distinct suggestions \<and> sorted suggestions \<and>
      (\<forall>s \<in> set suggestions.
         \<exists>d r. dbf = Some d \<and> r \<in> set (suggestion_rows d legislative_body) \<and>
           suggestion_matches search_term r \<and> (s = fst r \<or> s = fst (snd r) \<or> s = snd (snd r)))) \<and>
   (length search_term < 2 \<longrightarrow> fetch_search_suggestions dbf legislative_body search_term = Inr [])"
proof (intro conjI impI ballI)
  assume "length search_term < 2"
  then show "fetch_search_suggestions dbf legislative_body search_term = Inr []"
    by (simp add: fetch_search_suggestions_def)
next
  assume a: "fetch_search_suggestions dbf legislative_body search_term = Inr suggestions"
  let ?f = "\<lambda>(code, name, ministry_name). [code, name, ministry_name]"
  have cases: "suggestions = [] \<or>
    (\<exists>d. dbf = Some d \<and> suggestions = sort (remdups (concat (map ?f
       (take 10 (filter (suggestion_matches search_term) (suggestion_rows d legislative_body)))))))"
    using a by (auto simp: fetch_search_suggestions_def Let_def split: if_splits option.splits)
  then show "length suggestions \<le> 30"
  proof
    assume "suggestions = []" then show ?thesis by simp
  next
    assume "\<exists>d. dbf = Some d \<and> suggestions = sort (remdups (concat (map ?f
       (take 10 (filter (suggestion_matches search_term) (suggestion_rows d legislative_body))))))"
    then obtain d where s: "suggestions = sort (remdups (concat (map ?f
       (take 10 (filter (suggestion_matches search_term) (suggestion_rows d legislative_body))))))"
      by blast
    let ?df = "take 10 (filter (suggestion_matches search_term) (suggestion_rows d legislative_body))"
    have "length suggestions \<le> length (concat (map ?f ?df))"
      unfolding s by (simp add: length_remdups_leq)
    also have "\<dots> = 3 * length ?df" by (rule length_concat_triples)
    also have "\<dots> \<le> 30" by simp
    finally show ?thesis .
  qed
  from cases show "distinct suggestions" by auto
  from cases show "sorted suggestions" by auto
  fix s assume m: "s \<in> set suggestions"
  with cases obtain d where d: "dbf = Some d" and s: "s \<in> set (concat (map ?f
       (take 10 (filter (suggestion_matches search_term) (suggestion_rows d legislative_body)))))"
    by auto
  from set_concat_triples[OF s] obtain r where
    r: "r \<in> set (take 10 (filter (suggestion_matches search_term) (suggestion_rows d legislative_body)))"
    and f: "s = fst r \<or> s = fst (snd r) \<or> s = snd (snd r)"
    by blast
  from r have "r \<in> set (filter (suggestion_matches search_term) (suggestion_rows d legislative_body))"
    by (rule in_set_takeD)
  then have "r \<in> set (suggestion_rows d legislative_body) \<and> suggestion_matches search_term r"
    by simp
  with d f show "\<exists>d r. dbf = Some d \<and> r \<in> set (suggestion_rows d legislative_body) \<and>
           suggestion_matches search_term r \<and> (s = fst r \<or> s = fst (snd r) \<or> s = snd (snd r))"
    by blast
qed

theorem suggestions_bounded_sorted_witness:
  "fetch_search_suggestions (Some example_questions_store) ''Lok Sabha'' ''qn''
     = Inr [''Finance'', ''QN-FN-1001'', ''QN-FN-1002'', ''QN-FN-1003'', ''QN-FN-1004'', ''QN-FN-1005'',
        ''Question 1'', ''Question 2'', ''Question 3'', ''Question 4'', ''Question 5''] \<and>
   sorted [''Finance'', ''QN-FN-1001'', ''QN-FN-1002'', ''QN-FN-1003'', ''QN-FN-1004'', ''QN-FN-1005'',
        ''Question 1'', ''Question 2'', ''Question 3'', ''Question 4'', ''Question 5''] \<and>
   length ''q'' < 2 \<and>
   fetch_search_suggestions (Some example_questions_store) ''Lok Sabha'' ''q'' = Inr []"
proof -
  let ?xs = "[''Finance'', ''QN-FN-1001'', ''QN-FN-1002'', ''QN-FN-1003'', ''QN-FN-1004'', ''QN-FN-1005'',
        ''Question 1'', ''Question 2'', ''Question 3'', ''Question 4'', ''Question 5'']"
  have h: "length ''q'' < 2" by simp
  note t1 = suggestions_bounded_sorted[of "Some example_questions_store" "''Lok Sabha''" "''qn''" ?xs]
  note t2 = suggestions_bounded_sorted[of "Some example_questions_store" "''Lok Sabha''" "''q''" "[]"]
  from t1 example_suggestions have "sorted ?xs" by blast
  moreover from t2 h have "fetch_search_suggestions (Some example_questions_store) ''Lok Sabha'' ''q'' = Inr []"
    by blast
  ultimately show ?thesis using example_suggestions h by blast
qed

subsection \<open>C4: the status sort\<close>

text \<open>
  C4 as stated fails for questions: their status sort is descending
  (\<open>ascending=False\<close>), so a Not Answered question comes before an Answered one.
\<close>

theorem question_status_order_counterexample:
  "map (\<lambda>v. q_current_status (qv_question v))
     [example_question_view\<lparr>qv_question := example_question\<lparr>q_current_status := ''Answered''\<rparr>\<rparr>,
      example_question_view]
     = [''Answered'', ''Not Answered''] \<and>
   map (\<lambda>v. q_current_status (qv_question v))
     (sort_questions ''Status''
        [example_question_view\<lparr>qv_question := example_question\<lparr>q_current_status := ''Answered''\<rparr>\<rparr>,
         example_question_view])
     = [''Not Answered'', ''Answered'']"
  by (simp add: sort_questions_def sort_values_def List.map_filter_simps example_question_view_def
      example_question_def)

text \<open>
  C4, amended. When the status sort is applied to a fetched result set, bills come in the
  order Passed, Pending, Not Passed (any other status last), and questions in the order
  Not Answered, Answered (any other status last); the sorted rows are the fetched rows,
  each as often as it was fetched; the viewers read the store and return rows, and write
  nothing.
\<close>

theorem status_sort_order:
  "sorted (map (\<lambda>v. bill_status_place (b_current_status (bv_bill v))) (sort_bills ''Status'' df_bills)) \<and>
   mset (sort_bills ''Status'' df_bills) = mset df_bills \<and>
   sorted (map (\<lambda>v. question_status_place (q_current_status (qv_question v)))
     (sort_questions ''Status'' df_qns)) \<and>
   mset (sort_questions ''Status'' df_qns) = mset df_qns \<and>
   (render_bills_viewer legislative_body raw_search_query picked ''Status'' dbf = Inr shown \<longrightarrow>
      sorted (map (\<lambda>v. bill_status_place (b_current_status (bv_bill v))) shown) \<and>
      (\<exists>suggestions. fetch_search_suggestions dbf legislative_body raw_search_query = Inr suggestions \<and>
         mset shown = mset (fetch_bills dbf legislative_body
           (final_search_query suggestions picked raw_search_query)))) \<and>
   (render_questions_viewer legislative_body raw_search_query picked ''Status'' dbf = Inr qshown \<longrightarrow>
      sorted (map (\<lambda>v. question_status_place (q_current_status (qv_question v))) qshown) \<and>
      (\<exists>suggestions. fetch_search_suggestions dbf legislative_body raw_search_query = Inr suggestions \<and>
         mset qshown = mset (fetch_questions dbf legislative_body
           (final_search_query suggestions picked raw_search_query))))"
proof (intro conjI impI)
  show "sorted (map (\<lambda>v. bill_status_place (b_current_status (bv_bill v))) (sort_bills ''Status'' df_bills))"
    by (rule sorted_sort_bills_status)
  show "mset (sort_bills ''Status'' df_bills) = mset df_bills"
    by (rule mset_sort_bills)
  show "sorted (map (\<lambda>v. question_status_place (q_current_status (qv_question v)))
     (sort_questions ''Status'' df_qns))"
    by (rule sorted_sort_questions_status)
  show "mset (sort_questions ''Status'' df_qns) = mset df_qns"
    by (rule mset_sort_questions)
next
  assume a: "render_bills_viewer legislative_body raw_search_query picked ''Status'' dbf = Inr shown"
  then obtain suggestions where
    s: "fetch_search_suggestions dbf legislative_body raw_search_query = Inr suggestions"
    by (auto simp: render_bills_viewer_def split: sum.splits)
  let ?df = "fetch_bills dbf legislative_body (final_search_query suggestions picked raw_search_query)"
  from a s have shown: "shown = (if ?df = [] then [] else sort_bills ''Status'' ?df)"
    by (auto simp: render_bills_viewer_def Let_def split: if_splits)
  show "sorted (map (\<lambda>v. bill_status_place (b_current_status (bv_bill v))) shown)"
    unfolding shown using sorted_sort_bills_status[of ?df] by simp
  have "mset shown = mset ?df"
    unfolding shown by (simp add: mset_sort_bills)
  with s show "\<exists>suggestions. fetch_search_suggestions dbf legislative_body raw_search_query = Inr suggestions \<and>
         mset shown = mset (fetch_bills dbf legislative_body
           (final_search_query suggestions picked raw_search_query))"
    by blast
next
  assume a: "render_questions_viewer legislative_body raw_search_query picked ''Status'' dbf = Inr qshown"
  then obtain suggestions where
    s: "fetch_search_suggestions dbf legislative_body raw_search_query = Inr suggestions"
    by (auto simp: render_questions_viewer_def split: sum.splits)
  let ?df = "fetch_questions dbf legislative_body (final_search_query suggestions picked raw_search_query)"
  from a s have shown: "qshown = (if ?df = [] then [] else sort_questions ''Status'' ?df)"
    by (auto simp: render_questions_viewer_def Let_def split: if_splits)
  show "sorted (map (\<lambda>v. question_status_place (q_current_status (qv_question v))) qshown)"
    unfolding shown using sorted_sort_questions_status[of ?df] by simp
  have "mset qshown = mset ?df"
    unfolding shown by (simp add: mset_sort_questions)
  with s show "\<exists>suggestions. fetch_search_suggestions dbf legislative_body raw_search_query = Inr suggestions \<and>
         mset qshown = mset (fetch_questions dbf legislative_body
           (final_search_query suggestions picked raw_search_query))"
    by blast
qed

theorem status_sort_order_witness:
  "render_bills_viewer ''Lok Sabha'' [] 0 ''Status'' (Some example_mixed_store) = Inr [example_bill_view] \<and>
   sorted (map (\<lambda>v. bill_status_place (b_current_status (bv_bill v))) [example_bill_view]) \<and>
   render_questions_viewer ''Rajya Sabha'' [] 0 ''Status'' (Some example_mixed_store)
     = Inr [example_question_view] \<and>
   sorted (map (\<lambda>v. question_status_place (q_current_status (qv_question v))) [example_question_view]) \<and>
   map (\<lambda>v. b_current_status (bv_bill v))
     (sort_bills ''Status''
        [example_bill_view\<lparr>bv_bill := example_bill\<lparr>b_current_status := ''Not Passed''\<rparr>\<rparr>,
         example_bill_view,
         example_bill_view\<lparr>bv_bill := example_bill\<lparr>b_current_status := ''Passed''\<rparr>\<rparr>])
     = [''Passed'', ''Pending'', ''Not Passed'']"
proof -
  have v: "render_bills_viewer ''Lok Sabha'' [] 0 ''Status'' (Some example_mixed_store) = Inr [example_bill_view]"
    by (simp add: render_bills_viewer_def fetch_search_suggestions_def final_search_query_def
        example_mixed_fetch sort_bills_def sort_values_def List.map_filter_simps
        example_bill_view_def example_bill_def)
  have w: "render_questions_viewer ''Rajya Sabha'' [] 0 ''Status'' (Some example_mixed_store)
     = Inr [example_question_view]"
    by (simp add: render_questions_viewer_def fetch_search_suggestions_def final_search_query_def
        example_mixed_fetch sort_questions_def sort_values_def List.map_filter_simps
        example_question_view_def example_question_def)
  have e: "map (\<lambda>v. b_current_status (bv_bill v))
     (sort_bills ''Status''
        [example_bill_view\<lparr>bv_bill := example_bill\<lparr>b_current_status := ''Not Passed''\<rparr>\<rparr>,
         example_bill_view,
         example_bill_view\<lparr>bv_bill := example_bill\<lparr>b_current_status := ''Passed''\<rparr>\<rparr>])
     = [''Passed'', ''Pending'', ''Not Passed'']"
    by (simp add: sort_bills_def sort_values_def List.map_filter_simps example_bill_view_def
        example_bill_def)
  note t = status_sort_order[of "[example_bill_view]" "[example_question_view]" "''Lok Sabha''" "[]" 0
      "Some example_mixed_store" "[example_bill_view]" "[]"]
  note t' = status_sort_order[of "[example_bill_view]" "[example_question_view]" "''Rajya Sabha''" "[]" 0
      "Some example_mixed_store" "[]" "[example_question_view]"]
  from t v have sb: "sorted (map (\<lambda>v. bill_status_place (b_current_status (bv_bill v))) [example_bill_view])"
    by blast
  from t' w have sq: "sorted (map (\<lambda>v. question_status_place (q_current_status (qv_question v)))
      [example_question_view])"
    by blast
  from v sb w sq e show ?thesis by blast
qed

subsection \<open>C5: the search predicate\<close>




subsection \<open>C6: no money bill of the Rajya Sabha\<close>

text \<open>
  C6. A bill that the bill form creates for the Rajya Sabha has \<open>is_money_bill\<close> false,
  whatever the form's checkbox holds; and after any sequence of operations on a fresh
  database file, no stored Rajya Sabha bill has \<open>is_money_bill\<close> true.
\<close>

theorem rajya_sabha_bill_never_money_bill:
  "(render_bill_form ''Rajya Sabha'' f random_num dbf = (dbf', St_success msg) \<longrightarrow>
      (\<exists>d row. dbf = Some d \<and> dbf' = Some (d\<lparr>bills := insert_row row (bills d)\<rparr>) \<and>
         b_legislative_body row = ''Rajya Sabha'' \<and> \<not> b_is_money_bill row)) \<and>
   (run ops None = Some store \<longrightarrow>
      (\<forall>r \<in> set (rows (bills store)).
         b_legislative_body (snd r) = ''Rajya Sabha'' \<longrightarrow> \<not> b_is_money_bill (snd r)))"
proof (intro conjI impI)
  assume "render_bill_form ''Rajya Sabha'' f random_num dbf = (dbf', St_success msg)"
  from render_bill_form_created[OF this]
  show "\<exists>d row. dbf = Some d \<and> dbf' = Some (d\<lparr>bills := insert_row row (bills d)\<rparr>) \<and>
         b_legislative_body row = ''Rajya Sabha'' \<and> \<not> b_is_money_bill row"
    by blast
next
  assume "run ops None = Some store"
  with store_ok_fresh[of ops]
  show "\<forall>r \<in> set (rows (bills store)).
         b_legislative_body (snd r) = ''Rajya Sabha'' \<longrightarrow> \<not> b_is_money_bill (snd r)"
    by (simp add: store_ok_def stored_bill_ok_def)
qed

theorem rajya_sabha_bill_never_money_bill_witness:
  "f_money example_bill_form \<and>
   (\<exists>row. render_bill_form ''Rajya Sabha'' example_bill_form 4321 (Some example_store)
        = (Some (example_store\<lparr>bills := insert_row row (bills example_store)\<rparr>),
           St_success (Created ''BL-FN-4321'')) \<and>
      b_legislative_body row = ''Rajya Sabha'' \<and> \<not> b_is_money_bill row) \<and>
   (\<exists>store. run (example_setup @ [Bill_form ''Rajya Sabha'' example_bill_form 4321]) None = Some store \<and>
      map (\<lambda>r. b_legislative_body (snd r)) (rows (bills store)) = [''Rajya Sabha''] \<and>
      map (\<lambda>r. b_is_money_bill (snd r)) (rows (bills store)) = [False])"
proof -
  let ?ops = "example_setup @ [Bill_form ''Rajya Sabha'' example_bill_form 4321]"
  have m: "f_money example_bill_form" by (simp add: example_bill_form_def)
  have "snd (render_bill_form ''Rajya Sabha'' example_bill_form 4321 (Some example_store))
      = St_success (Created ''BL-FN-4321'')"
    by (simp add: form_defs example_bill_form_def example_store_def)
  then obtain after where
    b: "render_bill_form ''Rajya Sabha'' example_bill_form 4321 (Some example_store)
      = (after, St_success (Created ''BL-FN-4321''))"
    by (cases "render_bill_form ''Rajya Sabha'' example_bill_form 4321 (Some example_store)") simp
  have "\<exists>store. run ?ops None = Some store \<and>
      map (\<lambda>r. b_legislative_body (snd r)) (rows (bills store)) = [''Rajya Sabha'']"
    by (simp add: run_append example_store_reached)
       (simp add: run_def form_defs example_bill_form_def example_store_def)
  then obtain store where s: "run ?ops None = Some store"
    and r: "map (\<lambda>r. b_legislative_body (snd r)) (rows (bills store)) = [''Rajya Sabha'']"
    by auto
  note t = rajya_sabha_bill_never_money_bill[where f = example_bill_form and random_num = 4321
      and dbf = "Some example_store" and dbf' = after and msg = "Created ''BL-FN-4321''"
      and ops = ?ops and store = store]
  have t1: "\<exists>d row. Some example_store = Some d \<and>
      after = Some (d\<lparr>bills := insert_row row (bills d)\<rparr>) \<and>
      b_legislative_body row = ''Rajya Sabha'' \<and> \<not> b_is_money_bill row"
    by (rule mp[OF conjunct1[OF t] b])
  then obtain row where row: "after = Some (example_store\<lparr>bills := insert_row row (bills example_store)\<rparr>)"
    "b_legislative_body row = ''Rajya Sabha''" "\<not> b_is_money_bill row"
    by auto
  have c: "\<exists>row. render_bill_form ''Rajya Sabha'' example_bill_form 4321 (Some example_store)
        = (Some (example_store\<lparr>bills := insert_row row (bills example_store)\<rparr>),
           St_success (Created ''BL-FN-4321'')) \<and>
      b_legislative_body row = ''Rajya Sabha'' \<and> \<not> b_is_money_bill row"
    using b row by (intro exI[of _ row]) simp
  have t2: "\<forall>r \<in> set (rows (bills store)).
         b_legislative_body (snd r) = ''Rajya Sabha'' \<longrightarrow> \<not> b_is_money_bill (snd r)"
    by (rule mp[OF conjunct2[OF t] s])
  with r have "map (\<lambda>r. b_is_money_bill (snd r)) (rows (bills store)) = [False]"
    by (cases "rows (bills store)") auto
  with s r have "\<exists>store. run ?ops None = Some store \<and>
      map (\<lambda>r. b_legislative_body (snd r)) (rows (bills store)) = [''Rajya Sabha''] \<and>
      map (\<lambda>r. b_is_money_bill (snd r)) (rows (bills store)) = [False]"
    by (intro exI[of _ store]) simp
  with m c show ?thesis by (intro conjI)
qed

subsection \<open>C7: a state code exactly for the State Assembly\<close>

text \<open>
  C7. A bill or question that a creation form stores has a state code exactly when its
  legislative body is the State Assembly: then it is the code of the selected state,
  otherwise it is NULL. The same holds for every row that a fetch returns after any
  sequence of operations on a fresh database file.
\<close>

theorem state_code_iff_state_assembly:
  "(render_bill_form body f random_num dbf = (dbf', St_success msg) \<longrightarrow>
      (\<exists>d row. dbf = Some d \<and> dbf' = Some (d\<lparr>bills := insert_row row (bills d)\<rparr>) \<and>
         b_legislative_body row = body \<and>
         (b_state_code row \<noteq> None \<longleftrightarrow> body = ''State Assembly'') \<and>
         (body = ''State Assembly'' \<longrightarrow>
            (\<exists>s \<in> snd ` set (rows (states d)).
               m_name s = selectbox (select_state # dict_keys (fetch_metadata (states d))) (f_state f) \<and>
               b_state_code row = Some (m_code s))))) \<and>
   (render_question_form body g random_num dbf = (dbf'', St_success qmsg) \<longrightarrow>
      (\<exists>d row. dbf = Some d \<and> dbf'' = Some (d\<lparr>questions := insert_row row (questions d)\<rparr>) \<and>
         q_legislative_body row = body \<and>
         (q_state_code row \<noteq> None \<longleftrightarrow> body = ''State Assembly'') \<and>
         (body = ''State Assembly'' \<longrightarrow>
            (\<exists>s \<in> snd ` set (rows (states d)).
               m_name s = selectbox (select_state # dict_keys (fetch_metadata (states d))) (g_state g) \<and>
               q_state_code row = Some (m_code s))))) \<and>
   (\<forall>v \<in> set (fetch_bills (run ops None) fetched_body search_term).
      b_state_code (bv_bill v) \<noteq> None \<longleftrightarrow> fetched_body = ''State Assembly'') \<and>
   (\<forall>v \<in> set (fetch_questions (run ops None) fetched_body search_term).
      q_state_code (qv_question v) \<noteq> None \<longleftrightarrow> fetched_body = ''State Assembly'')"
proof (intro conjI impI ballI)
  assume a: "render_bill_form body f random_num dbf = (dbf', St_success msg)"
  from render_bill_form_created[OF a] obtain d row mc where
    d: "dbf = Some d" "dbf' = Some (d\<lparr>bills := insert_row row (bills d)\<rparr>)"
      "b_legislative_body row = body"
    and sa: "body = ''State Assembly'' \<longrightarrow>
        (\<exists>sc. dict_get (fetch_metadata (states d))
           (selectbox (select_state # dict_keys (fetch_metadata (states d))) (f_state f)) = Some sc \<and>
         b_state_code row = Some sc \<and>
         b_bill_code row = sc @ ''-'' @ mc @ ''-'' @ py_str_int random_num)"
    and other: "body \<noteq> ''State Assembly'' \<longrightarrow>
        b_state_code row = None \<and> b_bill_code row = ''BL-'' @ mc @ ''-'' @ py_str_int random_num"
    by blast
  have "\<exists>s \<in> snd ` set (rows (states d)).
               m_name s = selectbox (select_state # dict_keys (fetch_metadata (states d))) (f_state f) \<and>
               b_state_code row = Some (m_code s)" if "body = ''State Assembly''"
  proof -
    from sa that obtain sc where sc: "dict_get (fetch_metadata (states d))
           (selectbox (select_state # dict_keys (fetch_metadata (states d))) (f_state f)) = Some sc"
      "b_state_code row = Some sc" by blast
    from dict_get_fetch_metadata[OF sc(1)] sc(2) show ?thesis by auto
  qed
  with d sa other
  show "\<exists>d row. dbf = Some d \<and> dbf' = Some (d\<lparr>bills := insert_row row (bills d)\<rparr>) \<and>
         b_legislative_body row = body \<and>
         (b_state_code row \<noteq> None \<longleftrightarrow> body = ''State Assembly'') \<and>
         (body = ''State Assembly'' \<longrightarrow>
            (\<exists>s \<in> snd ` set (rows (states d)).
               m_name s = selectbox (select_state # dict_keys (fetch_metadata (states d))) (f_state f) \<and>
               b_state_code row = Some (m_code s)))"
    by (intro exI[of _ d] exI[of _ row]) auto
next
  assume a: "render_question_form body g random_num dbf = (dbf'', St_success qmsg)"
  from render_question_form_created[OF a] obtain d row mc where
    d: "dbf = Some d" "dbf'' = Some (d\<lparr>questions := insert_row row (questions d)\<rparr>)"
      "q_legislative_body row = body"
    and sa: "body = ''State Assembly'' \<longrightarrow>
        (\<exists>sc. dict_get (fetch_metadata (states d))
           (selectbox (select_state # dict_keys (fetch_metadata (states d))) (g_state g)) = Some sc \<and>
         q_state_code row = Some sc \<and>
         q_question_code row = sc @ ''-'' @ mc @ ''-'' @ py_str_int random_num)"
    and other: "body \<noteq> ''State Assembly'' \<longrightarrow>
        q_state_code row = None \<and> q_question_code row = ''QN-'' @ mc @ ''-'' @ py_str_int random_num"
    by blast
  have "\<exists>s \<in> snd ` set (rows (states d)).
               m_name s = selectbox (select_state # dict_keys (fetch_metadata (states d))) (g_state g) \<and>
               q_state_code row = Some (m_code s)" if "body = ''State Assembly''"
  proof -
    from sa that obtain sc where sc: "dict_get (fetch_metadata (states d))
           (selectbox (select_state # dict_keys (fetch_metadata (states d))) (g_state g)) = Some sc"
      "q_state_code row = Some sc" by blast
    from dict_get_fetch_metadata[OF sc(1)] sc(2) show ?thesis by auto
  qed
  with d sa other
  show "\<exists>d row. dbf = Some d \<and> dbf'' = Some (d\<lparr>questions := insert_row row (questions d)\<rparr>) \<and>
         q_legislative_body row = body \<and>
         (q_state_code row \<noteq> None \<longleftrightarrow> body = ''State Assembly'') \<and>
         (body = ''State Assembly'' \<longrightarrow>
            (\<exists>s \<in> snd ` set (rows (states d)).
               m_name s = selectbox (select_state # dict_keys (fetch_metadata (states d))) (g_state g) \<and>
               q_state_code row = Some (m_code s)))"
    by (intro exI[of _ d] exI[of _ row]) auto
next
  fix v assume "v \<in> set (fetch_bills (run ops None) fetched_body search_term)"
  from fetched_bill_stored[OF this] obtain d where
    d: "run ops None = Some d" "(bv_id v, bv_bill v) \<in> set (rows (bills d))"
      "b_legislative_body (bv_bill v) = fetched_body"
    by blast
  from store_ok_fresh[of ops] d(1,2) have "stored_bill_ok (bv_bill v)"
    by (auto simp: store_ok_def)
  with d(3) show "b_state_code (bv_bill v) \<noteq> None \<longleftrightarrow> fetched_body = ''State Assembly''"
    by (simp add: stored_bill_ok_def)
next
  fix v assume "v \<in> set (fetch_questions (run ops None) fetched_body search_term)"
  from fetched_question_stored[OF this] obtain d where
    d: "run ops None = Some d" "(qv_id v, qv_question v) \<in> set (rows (questions d))"
      "q_legislative_body (qv_question v) = fetched_body"
    by blast
  from store_ok_fresh[of ops] d(1,2) have "stored_question_ok (qv_question v)"
    by (auto simp: store_ok_def)
  with d(3) show "q_state_code (qv_question v) \<noteq> None \<longleftrightarrow> fetched_body = ''State Assembly''"
    by (simp add: stored_question_ok_def)
qed


theorem state_code_iff_state_assembly_witness:
  "(\<exists>row. render_bill_form ''State Assembly'' example_bill_form 5678 (Some example_store)
        = (Some (example_store\<lparr>bills := insert_row row (bills example_store)\<rparr>),
           St_success (Created ''MH-FN-5678'')) \<and>
      b_state_code row \<noteq> None) \<and>
   (\<exists>row. render_question_form ''State Assembly'' example_question_form 5678 (Some example_store)
        = (Some (example_store\<lparr>questions := insert_row row (questions example_store)\<rparr>),
           St_success (Created ''MH-FN-5678'')) \<and>
      q_state_code row \<noteq> None) \<and>
   fetch_bills (run (example_setup @ example_mixed_forms) None) ''State Assembly'' []
     = [example_state_bill_view] \<and>
   b_state_code (bv_bill example_state_bill_view) \<noteq> None \<and>
   fetch_bills (run (example_setup @ example_mixed_forms) None) ''Lok Sabha'' [] = [example_bill_view] \<and>
   b_state_code (bv_bill example_bill_view) = None \<and>
   fetch_questions (run (example_setup @ example_mixed_forms) None) ''Rajya Sabha'' []
     = [example_question_view] \<and>
   q_state_code (qv_question example_question_view) = None"
proof -
  let ?ops = "example_setup @ example_mixed_forms"
  have "snd (render_bill_form ''State Assembly'' example_bill_form 5678 (Some example_store))
      = St_success (Created ''MH-FN-5678'')"
    by (simp add: form_defs example_bill_form_def example_store_def)
  then obtain after where
    b: "render_bill_form ''State Assembly'' example_bill_form 5678 (Some example_store)
      = (after, St_success (Created ''MH-FN-5678''))"
    by (cases "render_bill_form ''State Assembly'' example_bill_form 5678 (Some example_store)") simp
  have "snd (render_question_form ''State Assembly'' example_question_form 5678 (Some example_store))
      = St_success (Created ''MH-FN-5678'')"
    by (simp add: form_defs example_question_form_def example_store_def)
  then obtain qafter where
    q: "render_question_form ''State Assembly'' example_question_form 5678 (Some example_store)
      = (qafter, St_success (Created ''MH-FN-5678''))"
    by (cases "render_question_form ''State Assembly'' example_question_form 5678 (Some example_store)") simp
  have f1: "fetch_bills (run ?ops None) ''State Assembly'' [] = [example_state_bill_view]"
    and f2: "fetch_bills (run ?ops None) ''Lok Sabha'' [] = [example_bill_view]"
    and f3: "fetch_questions (run ?ops None) ''Rajya Sabha'' [] = [example_question_view]"
    by (simp_all add: example_mixed_store_reached example_mixed_fetch)
  note t1 = state_code_iff_state_assembly[where body = "''State Assembly''" and f = example_bill_form
      and random_num = 5678 and dbf = "Some example_store" and dbf' = after
      and msg = "Created ''MH-FN-5678''" and g = example_question_form and dbf'' = qafter
      and qmsg = "Created ''MH-FN-5678''" and ops = ?ops and fetched_body = "''State Assembly''"
      and search_term = "[]"]
  note t2 = state_code_iff_state_assembly[where body = "''State Assembly''" and f = example_bill_form
      and random_num = 5678 and dbf = "Some example_store" and dbf' = after
      and msg = "Created ''MH-FN-5678''" and g = example_question_form and dbf'' = qafter
      and qmsg = "Created ''MH-FN-5678''" and ops = ?ops and fetched_body = "''Lok Sabha''"
      and search_term = "[]"]
  note t3 = state_code_iff_state_assembly[where body = "''State Assembly''" and f = example_bill_form
      and random_num = 5678 and dbf = "Some example_store" and dbf' = after
      and msg = "Created ''MH-FN-5678''" and g = example_question_form and dbf'' = qafter
      and qmsg = "Created ''MH-FN-5678''" and ops = ?ops and fetched_body = "''Rajya Sabha''"
      and search_term = "[]"]
  have "\<exists>d row. Some example_store = Some d \<and>
      after = Some (d\<lparr>bills := insert_row row (bills d)\<rparr>) \<and>
      b_legislative_body row = ''State Assembly'' \<and>
      (b_state_code row \<noteq> None \<longleftrightarrow> ''State Assembly'' = ''State Assembly'') \<and>
      (''State Assembly'' = ''State Assembly'' \<longrightarrow>
         (\<exists>s \<in> snd ` set (rows (states d)).
            m_name s = selectbox (select_state # dict_keys (fetch_metadata (states d))) (f_state example_bill_form) \<and>
            b_state_code row = Some (m_code s)))"
    by (rule mp[OF conjunct1[OF t1] b])
  then obtain row where row: "after = Some (example_store\<lparr>bills := insert_row row (bills example_store)\<rparr>)"
    "b_state_code row \<noteq> None"
    by auto
  have cb: "\<exists>row. render_bill_form ''State Assembly'' example_bill_form 5678 (Some example_store)
        = (Some (example_store\<lparr>bills := insert_row row (bills example_store)\<rparr>),
           St_success (Created ''MH-FN-5678'')) \<and>
      b_state_code row \<noteq> None"
    using b row by (intro exI[of _ row]) simp
  have "\<exists>d row. Some example_store = Some d \<and>
      qafter = Some (d\<lparr>questions := insert_row row (questions d)\<rparr>) \<and>
      q_legislative_body row = ''State Assembly'' \<and>
      (q_state_code row \<noteq> None \<longleftrightarrow> ''State Assembly'' = ''State Assembly'') \<and>
      (''State Assembly'' = ''State Assembly'' \<longrightarrow>
         (\<exists>s \<in> snd ` set (rows (states d)).
            m_name s = selectbox (select_state # dict_keys (fetch_metadata (states d))) (g_state example_question_form) \<and>
            q_state_code row = Some (m_code s)))"
    by (rule mp[OF conjunct1[OF conjunct2[OF t1]] q])
  then obtain qrow where qrow:
    "qafter = Some (example_store\<lparr>questions := insert_row qrow (questions example_store)\<rparr>)"
    "q_state_code qrow \<noteq> None"
    by auto
  have cq: "\<exists>row. render_question_form ''State Assembly'' example_question_form 5678 (Some example_store)
        = (Some (example_store\<lparr>questions := insert_row row (questions example_store)\<rparr>),
           St_success (Created ''MH-FN-5678'')) \<and>
      q_state_code row \<noteq> None"
    using q qrow by (intro exI[of _ qrow]) simp
  have "\<forall>v \<in> set (fetch_bills (run ?ops None) ''State Assembly'' []).
      b_state_code (bv_bill v) \<noteq> None \<longleftrightarrow> ''State Assembly'' = ''State Assembly''"
    by (rule conjunct1[OF conjunct2[OF conjunct2[OF t1]]])
  then have s1: "b_state_code (bv_bill example_state_bill_view) \<noteq> None"
    unfolding f1 by simp
  have "\<forall>v \<in> set (fetch_bills (run ?ops None) ''Lok Sabha'' []).
      b_state_code (bv_bill v) \<noteq> None \<longleftrightarrow> ''Lok Sabha'' = ''State Assembly''"
    by (rule conjunct1[OF conjunct2[OF conjunct2[OF t2]]])
  then have s2: "b_state_code (bv_bill example_bill_view) = None"
    unfolding f2 by simp
  have "\<forall>v \<in> set (fetch_questions (run ?ops None) ''Rajya Sabha'' []).
      q_state_code (qv_question v) \<noteq> None \<longleftrightarrow> ''Rajya Sabha'' = ''State Assembly''"
    by (rule conjunct2[OF conjunct2[OF conjunct2[OF t3]]])
  then have s3: "q_state_code (qv_question example_question_view) = None"
    unfolding f3 by simp
  from cb cq f1 s1 f2 s2 f3 s3 show ?thesis by (intro conjI)
qed

subsection \<open>C8: what a status update changes\<close>

text \<open>
  C8. The status update on a bill sets \<open>current_status\<close> and \<open>approval_result\<close> of the
  rows with the given id and nothing else: every other column of those rows, every other
  row and every other table stay as they were, and a fetch after the update returns the
  rows it returned before, the row with the id carrying the new status and every other
  field as before. The status update on a question sets only \<open>current_status\<close>, likewise.
\<close>

theorem status_update_frame:
  "(update_record_status True new_status new_approval record_id (Some d) = (dbf', out) \<longrightarrow>
      out = St_success Updated \<and>
      (\<exists>d'. dbf' = Some d' \<and>
         rows (bills d') =
           map (\<lambda>r. if fst r = record_id
                     then (fst r, (snd r)\<lparr>b_current_status := new_status, b_approval_result := new_approval\<rparr>)
                     else r) (rows (bills d)) \<and>
         last_id (bills d') = last_id (bills d) \<and>
         ministries d' = ministries d \<and> states d' = states d \<and> questions d' = questions d \<and>
         current_affairs d' = current_affairs d) \<and>
      fetch_bills dbf' legislative_body search_term =
        map (set_bill_status record_id new_status new_approval)
          (fetch_bills (Some d) legislative_body search_term) \<and>
      fetch_questions dbf' legislative_body search_term =
        fetch_questions (Some d) legislative_body search_term) \<and>
   (update_record_status False new_status new_approval record_id (Some d) = (dbf'', out') \<longrightarrow>
      out' = St_success Updated \<and>
      (\<exists>d'. dbf'' = Some d' \<and>
         rows (questions d') =
           map (\<lambda>r. if fst r = record_id then (fst r, (snd r)\<lparr>q_current_status := new_status\<rparr>) else r)
             (rows (questions d)) \<and>
         last_id (questions d') = last_id (questions d) \<and>
         ministries d' = ministries d \<and> states d' = states d \<and> bills d' = bills d \<and>
         current_affairs d' = current_affairs d) \<and>
      fetch_questions dbf'' legislative_body search_term =
        map (set_question_status record_id new_status)
          (fetch_questions (Some d) legislative_body search_term) \<and>
      fetch_bills dbf'' legislative_body search_term =
        fetch_bills (Some d) legislative_body search_term) \<and>
   b_current_status (bv_bill (set_bill_status record_id new_status new_approval v)) =
     (if bv_id v = record_id then new_status else b_current_status (bv_bill v)) \<and>
   (set_bill_status record_id new_status new_approval v)
     \<lparr>bv_bill := (bv_bill (set_bill_status record_id new_status new_approval v))
        \<lparr>b_current_status := b_current_status (bv_bill v),
         b_approval_result := b_approval_result (bv_bill v)\<rparr>\<rparr> = v \<and>
   (set_question_status record_id new_status w)
     \<lparr>qv_question := (qv_question (set_question_status record_id new_status w))
        \<lparr>q_current_status := q_current_status (qv_question w)\<rparr>\<rparr> = w"
proof (intro conjI impI)
  assume a: "update_record_status True new_status new_approval record_id (Some d) = (dbf', out)"
  let ?d' = "d\<lparr>bills := update_where_id record_id
       (\<lambda>b. b\<lparr>b_current_status := new_status, b_approval_result := new_approval\<rparr>) (bills d)\<rparr>"
  from a have d': "dbf' = Some ?d'" and o: "out = St_success Updated"
    by (auto simp: update_record_status_def)
  show "out = St_success Updated" by (rule o)
  show "\<exists>d'. dbf' = Some d' \<and>
         rows (bills d') =
           map (\<lambda>r. if fst r = record_id
                     then (fst r, (snd r)\<lparr>b_current_status := new_status, b_approval_result := new_approval\<rparr>)
                     else r) (rows (bills d)) \<and>
         last_id (bills d') = last_id (bills d) \<and>
         ministries d' = ministries d \<and> states d' = states d \<and> questions d' = questions d \<and>
         current_affairs d' = current_affairs d"
    unfolding d' by (intro exI[of _ ?d']) (simp add: update_where_id_def)
  show "fetch_bills dbf' legislative_body search_term =
        map (set_bill_status record_id new_status new_approval)
          (fetch_bills (Some d) legislative_body search_term)"
    unfolding d' by (rule fetch_bills_update)
  show "fetch_questions dbf' legislative_body search_term =
        fetch_questions (Some d) legislative_body search_term"
    unfolding d' by (rule fetch_other_table)
next
  assume a: "update_record_status False new_status new_approval record_id (Some d) = (dbf'', out')"
  let ?d' = "d\<lparr>questions := update_where_id record_id
       (\<lambda>q. q\<lparr>q_current_status := new_status\<rparr>) (questions d)\<rparr>"
  from a have d': "dbf'' = Some ?d'" and o: "out' = St_success Updated"
    by (auto simp: update_record_status_def)
  show "out' = St_success Updated" by (rule o)
  show "\<exists>d'. dbf'' = Some d' \<and>
         rows (questions d') =
           map (\<lambda>r. if fst r = record_id then (fst r, (snd r)\<lparr>q_current_status := new_status\<rparr>) else r)
             (rows (questions d)) \<and>
         last_id (questions d') = last_id (questions d) \<and>
         ministries d' = ministries d \<and> states d' = states d \<and> bills d' = bills d \<and>
         current_affairs d' = current_affairs d"
    unfolding d' by (intro exI[of _ ?d']) (simp add: update_where_id_def)
  show "fetch_questions dbf'' legislative_body search_term =
        map (set_question_status record_id new_status)
          (fetch_questions (Some d) legislative_body search_term)"
    unfolding d' by (rule fetch_questions_update)
  show "fetch_bills dbf'' legislative_body search_term =
        fetch_bills (Some d) legislative_body search_term"
    unfolding d' by (rule fetch_other_table)
next
  show "b_current_status (bv_bill (set_bill_status record_id new_status new_approval v)) =
     (if bv_id v = record_id then new_status else b_current_status (bv_bill v))"
    by (simp add: set_bill_status_def)
  show "(set_bill_status record_id new_status new_approval v)
     \<lparr>bv_bill := (bv_bill (set_bill_status record_id new_status new_approval v))
        \<lparr>b_current_status := b_current_status (bv_bill v),
         b_approval_result := b_approval_result (bv_bill v)\<rparr>\<rparr> = v"
    by (simp add: set_bill_status_def)
  show "(set_question_status record_id new_status w)
     \<lparr>qv_question := (qv_question (set_question_status record_id new_status w))
        \<lparr>q_current_status := q_current_status (qv_question w)\<rparr>\<rparr> = w"
    by (simp add: set_question_status_def)
qed

theorem status_update_frame_witness:
  "update_record_status True ''Passed'' (Some ''Pending'') 1 (Some example_mixed_store)
     = (Some (example_mixed_store\<lparr>bills :=
          \<lparr>rows = [(1, example_bill\<lparr>b_current_status := ''Passed''\<rparr>), (2, example_state_bill)],
           last_id = 2\<rparr>\<rparr>),
        St_success Updated) \<and>
   fetch_bills (Some example_mixed_store) ''Lok Sabha'' [] = [example_bill_view] \<and>
   fetch_bills (Some (example_mixed_store\<lparr>bills :=
          \<lparr>rows = [(1, example_bill\<lparr>b_current_status := ''Passed''\<rparr>), (2, example_state_bill)],
           last_id = 2\<rparr>\<rparr>))
        ''Lok Sabha'' []
     = [example_bill_view\<lparr>bv_bill := example_bill\<lparr>b_current_status := ''Passed''\<rparr>\<rparr>] \<and>
   update_record_status False ''Answered'' None 1 (Some example_mixed_store)
     = (Some (example_mixed_store\<lparr>questions :=
          \<lparr>rows = [(1, example_question\<lparr>q_current_status := ''Answered''\<rparr>)], last_id = 1\<rparr>\<rparr>),
        St_success Updated) \<and>
   fetch_questions (Some example_mixed_store) ''Rajya Sabha'' [] = [example_question_view] \<and>
   fetch_questions (Some (example_mixed_store\<lparr>questions :=
          \<lparr>rows = [(1, example_question\<lparr>q_current_status := ''Answered''\<rparr>)], last_id = 1\<rparr>\<rparr>))
        ''Rajya Sabha'' []
     = [example_question_view\<lparr>qv_question := example_question\<lparr>q_current_status := ''Answered''\<rparr>\<rparr>]"
proof -
  let ?after = "Some (example_mixed_store\<lparr>bills :=
          \<lparr>rows = [(1, example_bill\<lparr>b_current_status := ''Passed''\<rparr>), (2, example_state_bill)],
           last_id = 2\<rparr>\<rparr>)"
  let ?qafter = "Some (example_mixed_store\<lparr>questions :=
          \<lparr>rows = [(1, example_question\<lparr>q_current_status := ''Answered''\<rparr>)], last_id = 1\<rparr>\<rparr>)"
  have u: "update_record_status True ''Passed'' (Some ''Pending'') 1 (Some example_mixed_store)
     = (?after, St_success Updated)"
    by (simp add: update_record_status_def update_where_id_def example_mixed_store_def example_bill_def)
  have u': "update_record_status False ''Answered'' None 1 (Some example_mixed_store)
     = (?qafter, St_success Updated)"
    by (simp add: update_record_status_def update_where_id_def example_mixed_store_def)
  note t = status_update_frame[of "''Passed''" "Some ''Pending''" 1 example_mixed_store ?after
      "St_success Updated" "''Lok Sabha''" "[]" ?after "St_success Updated" example_bill_view
      example_question_view]
  note t' = status_update_frame[of "''Answered''" None 1 example_mixed_store ?qafter
      "St_success Updated" "''Rajya Sabha''" "[]" ?qafter "St_success Updated" example_bill_view
      example_question_view]
  from t u have "fetch_bills ?after ''Lok Sabha'' [] =
        map (set_bill_status 1 ''Passed'' (Some ''Pending'')) (fetch_bills (Some example_mixed_store) ''Lok Sabha'' [])"
    by blast
  then have f: "fetch_bills ?after ''Lok Sabha'' []
     = [example_bill_view\<lparr>bv_bill := example_bill\<lparr>b_current_status := ''Passed''\<rparr>\<rparr>]"
    by (simp add: example_mixed_fetch set_bill_status_def example_bill_view_def example_bill_def)
  from t' u' have "fetch_questions ?qafter ''Rajya Sabha'' [] =
        map (set_question_status 1 ''Answered'') (fetch_questions (Some example_mixed_store) ''Rajya Sabha'' [])"
    by blast
  then have f': "fetch_questions ?qafter ''Rajya Sabha'' []
     = [example_question_view\<lparr>qv_question := example_question\<lparr>q_current_status := ''Answered''\<rparr>\<rparr>]"
    by (simp add: example_mixed_fetch set_question_status_def example_question_view_def)
  from u f u' f' example_mixed_fetch(1) example_mixed_fetch(3) show ?thesis by blast
qed

subsection \<open>C9: the inner join on the ministry\<close>

text \<open>
  C9. List-bills and list-questions join each record to the ministries with an inner
  join on the ministry code: a stored bill or question whose ministry code matches no
  ministry row is in no fetch result, whatever the legislative body and the query. The
  states are joined with a left join: a record whose ministry exists is returned for its
  body and the empty query with the state's name when its state exists and with a NULL
  state name when it does not.
\<close>

theorem inner_join_on_ministry:
  "((i, b) \<in> set (rows (bills d)) \<and>
    (\<forall>m \<in> snd ` set (rows (ministries d)). Some (m_code m) \<noteq> b_ministry_code b) \<longrightarrow>
      (\<forall>v \<in> set (fetch_bills (Some d) legislative_body search_term). bv_bill v \<noteq> b)) \<and>
   ((i, b) \<in> set (rows (bills d)) \<and>
    m \<in> snd ` set (rows (ministries d)) \<and> Some (m_code m) = b_ministry_code b \<longrightarrow>
      ((\<forall>s \<in> snd ` set (rows (states d)). Some (m_code s) \<noteq> b_state_code b) \<longrightarrow>
         \<lparr>bv_id = i, bv_bill = b, bv_ministry_name = m_name m, bv_state_name = None\<rparr>
           \<in> set (fetch_bills (Some d) (b_legislative_body b) [])) \<and>
      (s \<in> snd ` set (rows (states d)) \<and> Some (m_code s) = b_state_code b \<longrightarrow>
         \<lparr>bv_id = i, bv_bill = b, bv_ministry_name = m_name m, bv_state_name = Some (m_name s)\<rparr>
           \<in> set (fetch_bills (Some d) (b_legislative_body b) []))) \<and>
   ((j, q) \<in> set (rows (questions d)) \<and>
    (\<forall>m \<in> snd ` set (rows (ministries d)). Some (m_code m) \<noteq> q_ministry_code q) \<longrightarrow>
      (\<forall>w \<in> set (fetch_questions (Some d) legislative_body search_term). qv_question w \<noteq> q)) \<and>
   ((j, q) \<in> set (rows (questions d)) \<and>
    m \<in> snd ` set (rows (ministries d)) \<and> Some (m_code m) = q_ministry_code q \<longrightarrow>
      ((\<forall>s \<in> snd ` set (rows (states d)). Some (m_code s) \<noteq> q_state_code q) \<longrightarrow>
         \<lparr>qv_id = j, qv_question = q, qv_ministry_name = m_name m, qv_state_name = None\<rparr>
           \<in> set (fetch_questions (Some d) (q_legislative_body q) [])) \<and>
      (s \<in> snd ` set (rows (states d)) \<and> Some (m_code s) = q_state_code q \<longrightarrow>
         \<lparr>qv_id = j, qv_question = q, qv_ministry_name = m_name m, qv_state_name = Some (m_name s)\<rparr>
           \<in> set (fetch_questions (Some d) (q_legislative_body q) [])))"
proof -
  have b_hidden: "\<forall>v \<in> set (fetch_bills (Some d) legislative_body search_term). bv_bill v \<noteq> b"
    if "\<forall>m \<in> snd ` set (rows (ministries d)). Some (m_code m) \<noteq> b_ministry_code b"
    using ministry_names_for_none[OF that] by (auto simp: set_fetch_bills in_join_bills)
  have q_hidden: "\<forall>w \<in> set (fetch_questions (Some d) legislative_body search_term). qv_question w \<noteq> q"
    if "\<forall>m \<in> snd ` set (rows (ministries d)). Some (m_code m) \<noteq> q_ministry_code q"
    using ministry_names_for_none[OF that] by (auto simp: set_fetch_questions in_join_questions)
  have mn: "m_name m \<in> set (ministry_names_for d mc)"
    if "m \<in> snd ` set (rows (ministries d))" "Some (m_code m) = mc" for mc
    using that unfolding set_ministry_names_for by blast
  have b_null: "\<lparr>bv_id = i, bv_bill = b, bv_ministry_name = m_name m, bv_state_name = None\<rparr>
           \<in> set (fetch_bills (Some d) (b_legislative_body b) [])"
    if "(i, b) \<in> set (rows (bills d))" "m \<in> snd ` set (rows (ministries d))"
      "Some (m_code m) = b_ministry_code b"
      "\<forall>s \<in> snd ` set (rows (states d)). Some (m_code s) \<noteq> b_state_code b"
    using that(1) mn[OF that(2,3)] state_names_for_none[OF that(4)]
    by (simp add: set_fetch_bills in_join_bills_record bill_matches_def)
  have b_state: "\<lparr>bv_id = i, bv_bill = b, bv_ministry_name = m_name m, bv_state_name = Some (m_name s)\<rparr>
           \<in> set (fetch_bills (Some d) (b_legislative_body b) [])"
    if "(i, b) \<in> set (rows (bills d))" "m \<in> snd ` set (rows (ministries d))"
      "Some (m_code m) = b_ministry_code b"
      "s \<in> snd ` set (rows (states d))" "Some (m_code s) = b_state_code b"
    using that(1) mn[OF that(2,3)] state_names_for_some[OF that(4,5)]
    by (simp add: set_fetch_bills in_join_bills_record bill_matches_def)
  have q_null: "\<lparr>qv_id = j, qv_question = q, qv_ministry_name = m_name m, qv_state_name = None\<rparr>
           \<in> set (fetch_questions (Some d) (q_legislative_body q) [])"
    if "(j, q) \<in> set (rows (questions d))" "m \<in> snd ` set (rows (ministries d))"
      "Some (m_code m) = q_ministry_code q"
      "\<forall>s \<in> snd ` set (rows (states d)). Some (m_code s) \<noteq> q_state_code q"
    using that(1) mn[OF that(2,3)] state_names_for_none[OF that(4)]
    by (simp add: set_fetch_questions in_join_questions_record question_matches_def)
  have q_state: "\<lparr>qv_id = j, qv_question = q, qv_ministry_name = m_name m, qv_state_name = Some (m_name s)\<rparr>
           \<in> set (fetch_questions (Some d) (q_legislative_body q) [])"
    if "(j, q) \<in> set (rows (questions d))" "m \<in> snd ` set (rows (ministries d))"
      "Some (m_code m) = q_ministry_code q"
      "s \<in> snd ` set (rows (states d))" "Some (m_code s) = q_state_code q"
    using that(1) mn[OF that(2,3)] state_names_for_some[OF that(4,5)]
    by (simp add: set_fetch_questions in_join_questions_record question_matches_def)
  from b_hidden q_hidden b_null b_state q_null q_state show ?thesis by blast
qed


theorem inner_join_on_ministry_witness:
  "delete_record Ministries (Some 1) ''FN'' (Some example_mixed_store)
     = (Some (delete_from Ministries 1 example_mixed_store), St_success Deleted) \<and>
   (1, example_bill) \<in> set (rows (bills (delete_from Ministries 1 example_mixed_store))) \<and>
   example_bill_view \<notin> set (fetch_bills (Some (delete_from Ministries 1 example_mixed_store)) ''Lok Sabha'' []) \<and>
   (1, example_question) \<in> set (rows (questions (delete_from Ministries 1 example_mixed_store))) \<and>
   example_question_view
     \<notin> set (fetch_questions (Some (delete_from Ministries 1 example_mixed_store)) ''Rajya Sabha'' []) \<and>
   (1, example_bill) \<in> set (rows (bills example_mixed_store)) \<and>
   b_state_code example_bill = None \<and>
   example_bill_view \<in> set (fetch_bills (Some example_mixed_store) ''Lok Sabha'' []) \<and>
   (1, example_question) \<in> set (rows (questions example_mixed_store)) \<and>
   example_question_view \<in> set (fetch_questions (Some example_mixed_store) ''Rajya Sabha'' []) \<and>
   (2, example_state_bill) \<in> set (rows (bills example_mixed_store)) \<and>
   b_state_code example_state_bill = Some ''MH'' \<and>
   example_state_bill_view \<in> set (fetch_bills (Some example_mixed_store) ''State Assembly'' [])"
proof -
  let ?gone = "delete_from Ministries 1 example_mixed_store"
  let ?m = "\<lparr>m_code = ''FN'', m_name = ''Finance''\<rparr>"
  let ?s = "\<lparr>m_code = ''MH'', m_name = ''Maharashtra''\<rparr>"
  have del: "delete_record Ministries (Some 1) ''FN'' (Some example_mixed_store)
     = (Some ?gone, St_success Deleted)"
    by (simp add: delete_record_def)
  have g1: "(1, example_bill) \<in> set (rows (bills ?gone))"
    by (simp add: example_mixed_store_def)
  have g2: "\<forall>m \<in> snd ` set (rows (ministries ?gone)). Some (m_code m) \<noteq> b_ministry_code example_bill"
    by (simp add: example_mixed_store_def example_store_def delete_where_id_def)
  have g3: "(1, example_question) \<in> set (rows (questions ?gone))"
    by (simp add: example_mixed_store_def)
  have g4: "\<forall>m \<in> snd ` set (rows (ministries ?gone)). Some (m_code m) \<noteq> q_ministry_code example_question"
    by (simp add: example_mixed_store_def example_store_def delete_where_id_def)
  have h1: "(1, example_bill) \<in> set (rows (bills example_mixed_store))"
    by (simp add: example_mixed_store_def)
  have h2: "?m \<in> snd ` set (rows (ministries example_mixed_store))"
    by (simp add: example_mixed_store_def example_store_def)
  have h3: "Some (m_code ?m) = b_ministry_code example_bill"
    by (simp add: example_bill_def)
  have h4: "\<forall>s \<in> snd ` set (rows (states example_mixed_store)). Some (m_code s) \<noteq> b_state_code example_bill"
    by (simp add: example_bill_def)
  have h5: "b_state_code example_bill = None"
    by (simp add: example_bill_def)
  have q1: "(1, example_question) \<in> set (rows (questions example_mixed_store))"
    by (simp add: example_mixed_store_def)
  have q3: "Some (m_code ?m) = q_ministry_code example_question"
    by (simp add: example_question_def)
  have q4: "\<forall>s \<in> snd ` set (rows (states example_mixed_store)). Some (m_code s) \<noteq> q_state_code example_question"
    by (simp add: example_question_def)
  have s1: "(2, example_state_bill) \<in> set (rows (bills example_mixed_store))"
    by (simp add: example_mixed_store_def)
  have s3: "Some (m_code ?m) = b_ministry_code example_state_bill"
    by (simp add: example_state_bill_def example_bill_def)
  have s4: "?s \<in> snd ` set (rows (states example_mixed_store))"
    by (simp add: example_mixed_store_def example_store_def)
  have s5: "Some (m_code ?s) = b_state_code example_state_bill"
    by (simp add: example_state_bill_def)
  have s6: "b_state_code example_state_bill = Some ''MH''"
    by (simp add: example_state_bill_def)
  note t1 = inner_join_on_ministry[of 1 example_bill ?gone "''Lok Sabha''" "[]" ?m ?s 1 example_question]
  note t2 = inner_join_on_ministry[of 1 example_bill ?gone "''Rajya Sabha''" "[]" ?m ?s 1 example_question]
  note t3 = inner_join_on_ministry[of 1 example_bill example_mixed_store "''Lok Sabha''" "[]" ?m ?s 1
      example_question]
  note t4 = inner_join_on_ministry[of 2 example_state_bill example_mixed_store "''State Assembly''" "[]"
      ?m ?s 1 example_question]
  from t1 g1 g2 have "\<forall>v \<in> set (fetch_bills (Some ?gone) ''Lok Sabha'' []). bv_bill v \<noteq> example_bill"
    by blast
  then have hidden: "example_bill_view \<notin> set (fetch_bills (Some ?gone) ''Lok Sabha'' [])"
    by (auto simp: example_bill_view_def)
  from t2 g3 g4
  have "\<forall>w \<in> set (fetch_questions (Some ?gone) ''Rajya Sabha'' []). qv_question w \<noteq> example_question"
    by blast
  then have qhidden: "example_question_view \<notin> set (fetch_questions (Some ?gone) ''Rajya Sabha'' [])"
    by (auto simp: example_question_view_def)
  from t3 h1 h2 h3 h4
  have "\<lparr>bv_id = 1, bv_bill = example_bill, bv_ministry_name = m_name ?m, bv_state_name = None\<rparr>
      \<in> set (fetch_bills (Some example_mixed_store) (b_legislative_body example_bill) [])"
    by blast
  then have shown: "example_bill_view \<in> set (fetch_bills (Some example_mixed_store) ''Lok Sabha'' [])"
    by (simp add: example_bill_view_def) (simp add: example_bill_def)
  from t3 q1 h2 q3 q4
  have "\<lparr>qv_id = 1, qv_question = example_question, qv_ministry_name = m_name ?m, qv_state_name = None\<rparr>
      \<in> set (fetch_questions (Some example_mixed_store) (q_legislative_body example_question) [])"
    by blast
  then have qshown: "example_question_view
      \<in> set (fetch_questions (Some example_mixed_store) ''Rajya Sabha'' [])"
    by (simp add: example_question_view_def) (simp add: example_question_def)
  from t4 s1 h2 s3 s4 s5
  have "\<lparr>bv_id = 2, bv_bill = example_state_bill, bv_ministry_name = m_name ?m,
         bv_state_name = Some (m_name ?s)\<rparr>
      \<in> set (fetch_bills (Some example_mixed_store) (b_legislative_body example_state_bill) [])"
    by blast
  then have sshown: "example_state_bill_view
      \<in> set (fetch_bills (Some example_mixed_store) ''State Assembly'' [])"
    by (simp add: example_state_bill_view_def) (simp add: example_state_bill_def)
  from del g1 hidden g3 qhidden h1 h5 shown q1 qshown s1 s6 sshown show ?thesis by blast
qed

subsection \<open>C10: a query that raises\<close>



end
